theory Spec2Isabelle
  imports Complex_Main
begin

section \<open>Conventions of the embedding\<close>

text \<open>
  The TypeScript sources are embedded shallowly, one HOL function per source function,
  under the source's name.

  \<^item> A JavaScript \<open>number\<close> that carries a measurement (wave height, temperature,
    confidence) is a \<open>rat\<close>, and a decimal literal of the source is its exact decimal
    value (\<open>0.3\<close> is \<open>3/10\<close>). A number that the source only uses as an integer
    (HTTP status, milliseconds, seconds, list index) is an \<open>int\<close> or a \<open>nat\<close>.
    \<open>NaN\<close>, where the source can produce it, is \<open>None\<close>.
  \<^item> An optional field (\<open>x?: T\<close>, \<open>T | null\<close>, \<open>T | undefined\<close>) is a \<open>T option\<close>.
  \<^item> A string is a \<open>string\<close>, one \<open>char\<close> per code unit.
  \<^item> The wall clock, the gazetteer store and the response headers are read by the
    source from its environment; the embedding takes them as arguments.
\<close>

section \<open>Error taxonomy (domain/types.ts, domain/error-handler.ts)\<close>

datatype ErrorCode =
    INVALID_INPUT
  | OUT_OF_COVERAGE
  | RATE_LIMITED
  | MET_API_UNAVAILABLE
  | INTERNAL_ERROR

text \<open>
  \<open>WeatherError['details']\<close> is an open record (\<open>[key: string]: unknown\<close>); the fields
  below are the keys that the sources under study write.
\<close>

record ErrorDetails =
  upstreamStatus :: "int option"
  requestId :: "string option"
  retryAfterSeconds :: "int option"
  networkError :: "string option"
  location :: "(rat \<times> rat) option"
  error :: "string option"

record WeatherError =
  code :: ErrorCode
  message :: string
  retryable :: bool
  details :: "ErrorDetails option"

definition noDetails :: ErrorDetails where
  "noDetails = \<lparr>upstreamStatus = None, requestId = None, retryAfterSeconds = None,
     networkError = None, location = None, error = None\<rparr>"

definition mapHttpStatusToErrorCode :: "int \<Rightarrow> ErrorCode" where
  "mapHttpStatusToErrorCode status =
     (if status = 400 \<or> status = 404 then INVALID_INPUT
      else if status = 403 then INTERNAL_ERROR
      else if status = 429 \<or> status = 503 then RATE_LIMITED
      else if status \<ge> 500 then MET_API_UNAVAILABLE
      else INTERNAL_ERROR)"

definition createWeatherError :: "ErrorCode \<Rightarrow> string \<Rightarrow> ErrorDetails option \<Rightarrow> WeatherError" where
  "createWeatherError c m d =
     \<lparr>code = c, message = m,
      retryable = (c = RATE_LIMITED \<or> c = MET_API_UNAVAILABLE),
      details = d\<rparr>"

definition createOutOfCoverageError :: "string \<Rightarrow> rat \<times> rat \<Rightarrow> WeatherError" where
  "createOutOfCoverageError m loc =
     createWeatherError OUT_OF_COVERAGE m (Some (noDetails\<lparr>location := Some loc\<rparr>))"

definition handleNetworkError :: "string \<Rightarrow> string option \<Rightarrow> WeatherError" where
  "handleNetworkError errMessage rid =
     createWeatherError MET_API_UNAVAILABLE
       ''Unable to reach MET Weather API. Please try again later.''
       (Some (noDetails\<lparr>requestId := rid, networkError := Some errMessage\<rparr>))"

section \<open>Strings of the JavaScript library\<close>

text \<open>
  The strings that the sources under study inspect are header values, whose code units
  are below 256; a \<open>char\<close> is one such code unit.
\<close>



text \<open>
  \<open>parseInt(s, 10)\<close>: leading white space is skipped, one sign is read, then the longest
  run of decimal digits; no digit gives \<open>NaN\<close> (\<open>None\<close>). The value is kept as an
  integer (\<open>-0\<close> is \<open>0\<close>).
\<close>

definition isWhiteSpace :: "char \<Rightarrow> bool" where
  "isWhiteSpace c =
     (c \<in> set [CHR 0x09, CHR 0x0A, CHR 0x0B, CHR 0x0C, CHR 0x0D, CHR 0x20, CHR 0xA0])"

definition isDigit :: "char \<Rightarrow> bool" where
  "isDigit c = ((48::nat) \<le> of_char c \<and> (of_char c :: nat) \<le> 57)"

definition digitValue :: "char \<Rightarrow> nat" where
  "digitValue c = of_char c - 48"

definition digitsValue :: "string \<Rightarrow> nat" where
  "digitsValue z = foldl (\<lambda>acc c. 10 * acc + digitValue c) 0 z"

definition parseInt :: "string \<Rightarrow> int option" where
  "parseInt inputString =
     (let s = dropWhile isWhiteSpace inputString;
          (sign, s') = (case s of
                          [] \<Rightarrow> (1, [])
                        | c # rest \<Rightarrow>
                            if c = CHR ''-'' then (- 1, rest)
                            else if c = CHR ''+'' then (1, rest)
                            else (1, s));
          z = takeWhile isDigit s'
      in if z = [] then None else Some (sign * int (digitsValue z)))"

section \<open>Cache headers (domain/cache-parser.ts)\<close>

datatype CacheStatus = HIT | MISS | EXPIRED | BYPASS

record CacheMetadata =
  cached :: bool
  ageSeconds :: "int option"
  status :: "CacheStatus option"

text \<open>\<open>Headers\<close>, as its \<open>get\<close>: the value of a header, \<open>None\<close> for \<open>null\<close>.\<close>

type_synonym Headers = "string \<Rightarrow> string option"


text \<open>
  \<open>if (proxyCacheHeader)\<close> and \<open>if (ageHeader)\<close> are truthiness tests: the header is
  present and not empty.
\<close>

definition truthy :: "string option \<Rightarrow> bool" where
  "truthy h = (h \<noteq> None \<and> h \<noteq> Some [])"


section \<open>HTTP errors (domain/error-handler.ts)\<close>

definition handleHttpError ::
  "int \<Rightarrow> string \<Rightarrow> Headers option \<Rightarrow> string option \<Rightarrow> WeatherError" where
  "handleHttpError httpStatus statusText headers rid =
     (let c = mapHttpStatusToErrorCode httpStatus;
          msg = (case c of
                   INVALID_INPUT \<Rightarrow> ''Invalid input parameters: '' @ statusText
                 | RATE_LIMITED \<Rightarrow> ''Rate limit exceeded. Please try again later.''
                 | MET_API_UNAVAILABLE \<Rightarrow> ''MET Weather API is currently unavailable.''
                 | INTERNAL_ERROR \<Rightarrow>
                     if httpStatus = 403
                     then ''Configuration error: User-Agent or Terms of Service issue.''
                     else ''An internal error occurred.''
                 | OUT_OF_COVERAGE \<Rightarrow> ''Unexpected error: '' @ statusText);
          d0 = noDetails\<lparr>upstreamStatus := Some httpStatus\<rparr>;
          d1 = (if truthy rid then d0\<lparr>requestId := rid\<rparr> else d0);
          d2 = (case headers of
                  None \<Rightarrow> d1
                | Some h \<Rightarrow>
                    if c = RATE_LIMITED \<and> truthy (h ''Retry-After'')
                    then (case parseInt (the (h ''Retry-After'')) of
                            None \<Rightarrow> d1
                          | Some seconds \<Rightarrow> d1\<lparr>retryAfterSeconds := Some seconds\<rparr>)
                    else d1)
      in createWeatherError c msg (Some d2))"

section \<open>Attribution (domain/attribution.ts)\<close>

record SourceMetadata =
  provider :: string
  product :: string
  licenseUri :: string
  creditLine :: string
  sm_cached :: bool
  sm_ageSeconds :: "int option"

definition MET_LICENSE_URI :: string where
  "MET_LICENSE_URI = ''https://api.met.no/doc/License''"

definition MET_CREDIT_LINE :: string where
  "MET_CREDIT_LINE = ''Data from MET Norway Weather API (https://api.met.no/)''"

definition buildSourceMetadata :: "string \<Rightarrow> CacheMetadata \<Rightarrow> SourceMetadata" where
  "buildSourceMetadata productName cache =
     \<lparr>provider = ''MET Norway'', product = productName,
      licenseUri = MET_LICENSE_URI, creditLine = MET_CREDIT_LINE,
      sm_cached = cached cache, sm_ageSeconds = ageSeconds cache\<rparr>"

section \<open>Marine risk classifier (tools/marine-conditions.ts)\<close>

datatype VesselType = kayak | small_sailboat | motorboat | ship

datatype RiskLevel = low | moderate | high | extreme

record Bound =
  wave :: rat
  current :: rat

record Thresholds =
  t_low :: Bound
  t_moderate :: Bound
  t_high :: Bound

fun RISK_THRESHOLDS :: "VesselType \<Rightarrow> Thresholds" where
  "RISK_THRESHOLDS kayak =
     \<lparr>t_low = \<lparr>wave = 3/10, current = 5/10\<rparr>,
      t_moderate = \<lparr>wave = 5/10, current = 1\<rparr>,
      t_high = \<lparr>wave = 8/10, current = 15/10\<rparr>\<rparr>"
| "RISK_THRESHOLDS small_sailboat =
     \<lparr>t_low = \<lparr>wave = 5/10, current = 1\<rparr>,
      t_moderate = \<lparr>wave = 1, current = 2\<rparr>,
      t_high = \<lparr>wave = 15/10, current = 3\<rparr>\<rparr>"
| "RISK_THRESHOLDS motorboat =
     \<lparr>t_low = \<lparr>wave = 8/10, current = 15/10\<rparr>,
      t_moderate = \<lparr>wave = 15/10, current = 25/10\<rparr>,
      t_high = \<lparr>wave = 2, current = 4\<rparr>\<rparr>"
| "RISK_THRESHOLDS ship =
     \<lparr>t_low = \<lparr>wave = 2, current = 3\<rparr>,
      t_moderate = \<lparr>wave = 35/10, current = 5\<rparr>,
      t_high = \<lparr>wave = 5, current = 7\<rparr>\<rparr>"

text \<open>
  \<open>assessRiskLevel\<close> returns the level and a note. The note is built from
  \<open>toFixed(1)\<close> renderings of the two measurements; the embedding keeps which phrases
  the note is made of and leaves the rendered digits out.
\<close>

datatype NotePhrase =
    HighWave | StrongCurrents | ModerateWave | ModerateCurrents
  | MinorHazards | Calm

definition assessRiskLevel :: "rat \<Rightarrow> rat \<Rightarrow> VesselType \<Rightarrow> RiskLevel \<times> NotePhrase list" where
  "assessRiskLevel waveHeight waterSpeed vesselType =
     (let thresholds = RISK_THRESHOLDS vesselType in
      if waveHeight \<ge> wave (t_high thresholds) \<or> waterSpeed \<ge> current (t_high thresholds)
      then (high,
            (if waveHeight \<ge> wave (t_high thresholds) then [HighWave] else []) @
            (if waterSpeed \<ge> current (t_high thresholds) then [StrongCurrents] else []))
      else if waveHeight \<ge> wave (t_moderate thresholds)
              \<or> waterSpeed \<ge> current (t_moderate thresholds)
      then (moderate,
            (if waveHeight \<ge> wave (t_moderate thresholds) then [ModerateWave] else []) @
            (if waterSpeed \<ge> current (t_moderate thresholds) then [ModerateCurrents] else []))
      else if waveHeight \<ge> wave (t_low thresholds) \<or> waterSpeed \<ge> current (t_low thresholds)
      then (low, [MinorHazards])
      else (low, [Calm]))"

section \<open>Response envelopes (domain/response-builder.ts)\<close>

text \<open>
  A \<open>CallToolResult\<close> holds one text block, the structured content and the \<open>isError\<close>
  flag, which \<open>buildToolResponse\<close> leaves undefined.
\<close>

datatype 'o Structured = ErrorContent WeatherError | Output 'o

record 'o CallToolResult =
  content_text :: string
  structuredContent :: "'o Structured"
  isError :: "bool option"

definition buildToolResponse :: "'o \<Rightarrow> string \<Rightarrow> 'o CallToolResult" where
  "buildToolResponse sc textSummary =
     \<lparr>content_text = textSummary, structuredContent = Output sc, isError = None\<rparr>"

text \<open>Template-literal rendering of an integer: decimal digits, \<open>-\<close> in front when negative.\<close>

fun digits :: "nat \<Rightarrow> string" where
  "digits n = (if n < 10 then [''0123456789'' ! n]
               else digits (n div 10) @ [''0123456789'' ! (n mod 10)])"

declare digits.simps [simp del]

definition numberToString :: "int \<Rightarrow> string" where
  "numberToString i = (if i < 0 then CHR ''-'' # digits (nat (- i)) else digits (nat i))"

text \<open>
  \<open>error.details?.retryAfterSeconds ? ... : ...\<close> tests truthiness: the field is present
  and is not \<open>0\<close>.
\<close>

definition buildErrorResponse :: "WeatherError \<Rightarrow> 'o CallToolResult" where
  "buildErrorResponse err =
     (let textSummary =
        (case details err of
           None \<Rightarrow> message err
         | Some d \<Rightarrow>
             (case retryAfterSeconds d of
                None \<Rightarrow> message err
              | Some n \<Rightarrow>
                  if n \<noteq> 0
                  then message err @ '' Retry after '' @ numberToString n @ '' seconds.''
                  else message err))
      in \<lparr>content_text = textSummary, structuredContent = ErrorContent err, isError = Some True\<rparr>)"

text \<open>The degree sign, code unit \<open>0xB0\<close>.\<close>

definition degree :: string where
  "degree = [CHR 0xB0]"

section \<open>Coverage (domain/coverage-validator.ts)\<close>

definition isCoastalNorway :: "rat \<Rightarrow> rat \<Rightarrow> bool" where
  "isCoastalNorway lat lon =
     (let isOsloFjord = (lat \<ge> 59 \<and> lat \<le> 605/10 \<and> lon \<ge> 10 \<and> lon \<le> 115/10);
          isWesternCoast = (lat \<ge> 58 \<and> lat \<le> 63 \<and> lon \<ge> 45/10 \<and> lon \<le> 8)
      in isOsloFjord \<or> isWesternCoast)"

section \<open>Time windows (domain/schemas/common.ts and the two resolvers)\<close>

datatype TimeWindowPreset = next_24h | next_48h | next_7d | full_available

datatype TimeWindowKind = absolute | relative

text \<open>
  \<open>TimeWindowSchema\<close>: every field is optional. The fields \<open>from\<close> and \<open>to\<close> are named
  \<open>tw_from\<close> and \<open>tw_to\<close> here.
\<close>

record TimeWindow =
  kind :: "TimeWindowKind option"
  tw_from :: "string option"
  tw_to :: "string option"
  preset :: "TimeWindowPreset option"

text \<open>
  The resolved window. The source returns the two instants as \<open>toISOString()\<close> texts;
  the embedding keeps the instants, in milliseconds since the epoch.
\<close>

record ResolvedWindow =
  rw_from :: int
  rw_to :: int

text \<open>
  \<open>resolveTimeWindow\<close> of location-forecast.ts. \<open>now\<close> is the value of \<open>new Date()\<close>.
  The function has no \<open>throw\<close>; it reads \<open>timeWindow.preset\<close> and nothing else of its
  argument.
\<close>

definition resolveTimeWindow :: "TimeWindow option \<Rightarrow> int \<Rightarrow> ResolvedWindow" where
  "resolveTimeWindow timeWindow now =
     (case timeWindow of
        None \<Rightarrow> \<lparr>rw_from = now, rw_to = now + 48 * 60 * 60 * 1000\<rparr>
      | Some tw \<Rightarrow>
          (case preset tw of
             None \<Rightarrow> \<lparr>rw_from = now, rw_to = now + 48 * 60 * 60 * 1000\<rparr>
           | Some p \<Rightarrow>
               (let hours = (case p of
                               next_24h \<Rightarrow> 24
                             | next_48h \<Rightarrow> 48
                             | next_7d \<Rightarrow> 7 * 24
                             | full_available \<Rightarrow> 10 * 24)
                in \<lparr>rw_from = now, rw_to = now + hours * 60 * 60 * 1000\<rparr>)))"

text \<open>\<open>resolveTimeWindow\<close> of marine-conditions.ts: two presets, everything else 48 hours.\<close>

definition resolveTimeWindow_marine :: "TimeWindow option \<Rightarrow> int \<Rightarrow> ResolvedWindow" where
  "resolveTimeWindow_marine timeWindow now =
     (case timeWindow of
        None \<Rightarrow> \<lparr>rw_from = now, rw_to = now + 48 * 60 * 60 * 1000\<rparr>
      | Some tw \<Rightarrow>
          (case preset tw of
             None \<Rightarrow> \<lparr>rw_from = now, rw_to = now + 48 * 60 * 60 * 1000\<rparr>
           | Some next_24h \<Rightarrow> \<lparr>rw_from = now, rw_to = now + 24 * 60 * 60 * 1000\<rparr>
           | Some next_48h \<Rightarrow> \<lparr>rw_from = now, rw_to = now + 48 * 60 * 60 * 1000\<rparr>
           | Some _ \<Rightarrow> \<lparr>rw_from = now, rw_to = now + 48 * 60 * 60 * 1000\<rparr>))"

section \<open>Marine conditions tool (tools/marine-conditions.ts)\<close>

text \<open>
  One entry of the upstream time series. \<open>e_instant\<close> is the value of
  \<open>new Date(entry.time)\<close> in milliseconds, \<open>None\<close> for an invalid date, whose
  comparisons are all false.
\<close>

record OceanEntry =
  e_time :: string
  e_instant :: "int option"
  sea_surface_wave_from_direction :: "rat option"
  sea_surface_wave_height :: "rat option"
  sea_water_speed :: "rat option"
  sea_water_temperature :: "rat option"
  sea_water_to_direction :: "rat option"

record MarineConditionsPoint =
  p_time :: string
  wave_height :: rat
  wave_direction :: rat
  water_temperature :: rat
  water_speed :: rat
  water_direction :: rat
  risk_level :: RiskLevel
  risk_notes :: "NotePhrase list"

definition orElse :: "'a option \<Rightarrow> 'a \<Rightarrow> 'a" where
  "orElse v d = (case v of None \<Rightarrow> d | Some x \<Rightarrow> x)"

definition outsideWindow :: "int option \<Rightarrow> ResolvedWindow \<Rightarrow> bool" where
  "outsideWindow t w = (case t of None \<Rightarrow> False | Some ms \<Rightarrow> ms < rw_from w \<or> ms > rw_to w)"

definition marinePoint :: "VesselType \<Rightarrow> OceanEntry \<Rightarrow> MarineConditionsPoint" where
  "marinePoint vesselType entry =
     (let waveHeight = orElse (sea_surface_wave_height entry) 0;
          waterSpeed = orElse (sea_water_speed entry) 0;
          (level, notes) = assessRiskLevel waveHeight waterSpeed vesselType
      in \<lparr>p_time = e_time entry,
          wave_height = waveHeight,
          wave_direction = orElse (sea_surface_wave_from_direction entry) 0,
          water_temperature = orElse (sea_water_temperature entry) 0,
          water_speed = waterSpeed,
          water_direction = orElse (sea_water_to_direction entry) 0,
          risk_level = level,
          risk_notes = notes\<rparr>)"

definition transformMetResponse_marine ::
  "OceanEntry list \<Rightarrow> ResolvedWindow \<Rightarrow> VesselType \<Rightarrow> MarineConditionsPoint list" where
  "transformMetResponse_marine timeseries timeWindow vesselType =
     map (marinePoint vesselType)
       (filter (\<lambda>entry. \<not> outsideWindow (e_instant entry) timeWindow) timeseries)"

record Coordinate =
  lat :: rat
  lon :: rat
  altitude :: "rat option"

record MarineConditionsInput =
  mi_location :: Coordinate
  mi_timeWindow :: "TimeWindow option"
  mi_vesselType :: VesselType
  mi_language :: string

record MarineConditionsOutput =
  mo_source :: SourceMetadata
  mo_location :: "rat \<times> rat"
  mo_timeWindow :: ResolvedWindow
  mo_vesselType :: VesselType
  mo_hours :: "MarineConditionsPoint list"

text \<open>
  What a call of \<open>proxyClient.fetch\<close> does: it returns the data with the cache
  metadata of the response (\<open>response.cache\<close>), or throws. A thrown value with \<open>code\<close> and \<open>message\<close> is a
  \<open>WeatherError\<close>; anything else is wrapped as \<open>INTERNAL_ERROR\<close> by the handler.
\<close>

datatype 'a Fetched =
    Answered 'a CacheMetadata
  | ThrownWeatherError WeatherError
  | ThrownOther string

text \<open>
  The environment of one call of the marine tool: the clock reading and the proxy.
\<close>

record MarineEnv =
  clock :: int
  fetchOcean :: "rat \<Rightarrow> rat \<Rightarrow> OceanEntry list Fetched"

text \<open>
  The handler. Of a successful envelope the embedding keeps the structured output (the
  text summary is a rendering of it); an error envelope is kept whole.
\<close>

definition handleMarineConditions ::
  "MarineConditionsInput \<Rightarrow> MarineEnv
     \<Rightarrow> MarineConditionsOutput CallToolResult + MarineConditionsOutput" where
  "handleMarineConditions input env =
     (if \<not> isCoastalNorway (lat (mi_location input)) (lon (mi_location input))
      then Inl (buildErrorResponse
                 (createOutOfCoverageError
                    (''Marine conditions are only available for coastal Norway (Oslo Fjord 59-60.5''
                       @ degree @ ''N, 10-11.5'' @ degree @ ''E and Western Coast 58-63''
                       @ degree @ ''N, 4.5-8'' @ degree @ ''E).'')
                    (lat (mi_location input), lon (mi_location input))))
      else
        (let timeWindow = resolveTimeWindow_marine (mi_timeWindow input) (clock env) in
         case fetchOcean env (lat (mi_location input)) (lon (mi_location input)) of
           ThrownWeatherError e \<Rightarrow> Inl (buildErrorResponse e)
         | ThrownOther msg \<Rightarrow>
             Inl (buildErrorResponse
                   (createWeatherError INTERNAL_ERROR
                      ''An unexpected error occurred while fetching marine conditions.''
                      (Some (noDetails\<lparr>error := Some msg\<rparr>))))
         | Answered timeseries cache \<Rightarrow>
             Inr \<lparr>mo_source = buildSourceMetadata ''Oceanforecast 2.0'' cache,
                  mo_location = (lat (mi_location input), lon (mi_location input)),
                  mo_timeWindow = timeWindow,
                  mo_vesselType = mi_vesselType input,
                  mo_hours = transformMetResponse_marine timeseries timeWindow
                               (mi_vesselType input)\<rparr>))"

section \<open>Marine trip tool (tools/assess-marine-trip.ts)\<close>

record Waypoint =
  wp_lat :: rat
  wp_lon :: rat
  wp_name :: "string option"

text \<open>
  The trip verdict. Its last value has the name of the last \<open>RiskLevel\<close>; the two are
  written \<open>RiskLevel.extreme\<close> and \<open>TripRiskLevel.extreme\<close> throughout.
\<close>

datatype TripRiskLevel = safe | caution | dangerous | extreme

text \<open>\<open>reason: hour.risk_notes || 'High risk conditions'\<close>: the note, unless it is empty.\<close>

datatype Reason = Notes "NotePhrase list" | HighRiskConditions

record RiskHotspot =
  h_location :: Waypoint
  h_time :: string
  h_risk_level :: RiskLevel
  h_wave_height :: rat
  h_water_speed :: rat
  h_reason :: Reason

record WaypointAssessment =
  waypoint :: Waypoint
  max_risk :: RiskLevel
  hours_assessed :: nat
  high_risk_hours :: nat

fun riskToNumeric :: "RiskLevel \<Rightarrow> int" where
  "riskToNumeric low = 0"
| "riskToNumeric moderate = 1"
| "riskToNumeric high = 2"
| "riskToNumeric RiskLevel.extreme = 3"

definition numericToRisk :: "int \<Rightarrow> RiskLevel" where
  "numericToRisk v =
     (if v \<ge> 3 then RiskLevel.extreme
      else if v \<ge> 2 then high
      else if v \<ge> 1 then moderate
      else low)"

text \<open>
  \<open>Math.max(...xs)\<close>: the greatest element, and \<open>-Infinity\<close> (here \<open>None\<close>) for no
  arguments. \<open>-Infinity >= k\<close> is false for every number \<open>k\<close>.
\<close>

definition math_max :: "int list \<Rightarrow> int option" where
  "math_max xs = (case xs of [] \<Rightarrow> None | x # rest \<Rightarrow> Some (fold max rest x))"

definition at_least :: "int option \<Rightarrow> int \<Rightarrow> bool" where
  "at_least m k = (case m of None \<Rightarrow> False | Some v \<Rightarrow> v \<ge> k)"

definition aggregateTripRisk :: "WaypointAssessment list \<Rightarrow> TripRiskLevel" where
  "aggregateTripRisk waypointAssessments =
     (let maxRisk = math_max (map (\<lambda>w. riskToNumeric (max_risk w)) waypointAssessments);
          highRiskWaypoints =
            length (filter (\<lambda>w. riskToNumeric (max_risk w) \<ge> 2) waypointAssessments)
      in if at_least maxRisk 3 then TripRiskLevel.extreme
         else if at_least maxRisk 2 then
           (if highRiskWaypoints \<ge> 2 then dangerous else caution)
         else if at_least maxRisk 1 then caution
         else safe)"

fun vesselName :: "VesselType \<Rightarrow> string" where
  "vesselName kayak = ''kayak''"
| "vesselName small_sailboat = ''small_sailboat''"
| "vesselName motorboat = ''motorboat''"
| "vesselName ship = ''ship''"

fun generateRecommendation :: "TripRiskLevel \<Rightarrow> VesselType \<Rightarrow> string" where
  "generateRecommendation safe v =
     ''Safe to proceed with '' @ vesselName v @ ''. Conditions are favorable along the route.''"
| "generateRecommendation caution v =
     ''Exercise caution. Moderate conditions expected at some points along the route. Monitor weather closely.''"
| "generateRecommendation dangerous v =
     ''Not recommended for '' @ vesselName v @
     ''. High-risk conditions detected along the route. Consider postponing or choosing an alternative route.''"
| "generateRecommendation TripRiskLevel.extreme v =
     ''DANGER: Extreme conditions detected. Do not proceed. Trip is unsafe for '' @ vesselName v @ ''.''"

text \<open>\<open>Math.round\<close>: the nearest integer, a half rounded up.\<close>

definition math_round :: "rat \<Rightarrow> int" where
  "math_round x = \<lfloor>x + 1/2\<rfloor>"

text \<open>
  \<open>sampleWaypoints\<close>. The loop \<open>for (i = 1; i < maxSamples - 1; i++)\<close> runs over
  \<open>[1..<maxSamples - 1]\<close>, which is empty when \<open>maxSamples \<le> 2\<close>; \<open>step\<close> is only used
  inside the loop. Every index read is within the route (lemma \<open>sample_index_in_range\<close>).
\<close>

definition sampleWaypoints :: "'a list \<Rightarrow> nat \<Rightarrow> 'a list" where
  "sampleWaypoints route maxSamples =
     (if length route \<le> maxSamples then route
      else
        (let step = (rat_of_nat (length route) - 1) / (rat_of_nat maxSamples - 1)
         in [route ! 0]
            @ map (\<lambda>i. route ! nat (math_round (rat_of_nat i * step))) [1..<maxSamples - 1]
            @ [route ! (length route - 1)]))"

record AssessMarineTripInput =
  route :: "Waypoint list"
  ti_vesselType :: VesselType
  ti_timeWindow :: "TimeWindow option"
  ti_language :: string

record AssessMarineTripOutput =
  to_route :: "Waypoint list"
  to_vesselType :: VesselType
  to_timeWindow :: ResolvedWindow
  overall_risk :: TripRiskLevel
  waypoint_assessments :: "WaypointAssessment list"
  hotspots :: "RiskHotspot list"
  recommendation :: string

text \<open>The inner loop of the handler, over the hours of one waypoint.\<close>

fun scanHours ::
  "Waypoint \<Rightarrow> MarineConditionsPoint list \<Rightarrow> RiskLevel \<times> nat \<times> RiskHotspot list
     \<Rightarrow> RiskLevel \<times> nat \<times> RiskHotspot list" where
  "scanHours wp [] st = st"
| "scanHours wp (hour # rest) (maxRisk, highRiskHours, allHotspots) =
     (let hourRiskNumeric = riskToNumeric (risk_level hour);
          maxRisk' = (if hourRiskNumeric > riskToNumeric maxRisk then risk_level hour
                      else maxRisk);
          highRiskHours' = (if hourRiskNumeric \<ge> 2 then highRiskHours + 1 else highRiskHours);
          allHotspots' =
            (if hourRiskNumeric \<ge> 2
             then allHotspots @
                  [\<lparr>h_location = \<lparr>wp_lat = wp_lat wp, wp_lon = wp_lon wp, wp_name = wp_name wp\<rparr>,
                    h_time = p_time hour,
                    h_risk_level = risk_level hour,
                    h_wave_height = wave_height hour,
                    h_water_speed = water_speed hour,
                    h_reason = (if risk_notes hour = [] then HighRiskConditions
                                else Notes (risk_notes hour))\<rparr>]
             else allHotspots)
      in scanHours wp rest (maxRisk', highRiskHours', allHotspots'))"

text \<open>
  The environment of a trip assessment: the environment of the \<open>k\<close>-th call of the marine
  tool, and the two clock readings of the output's time window.
\<close>

record TripEnv =
  marineEnv :: "nat \<Rightarrow> MarineEnv"
  clockFrom :: int
  clockTo :: int

text \<open>
  The outer loop, over the sampled waypoints. \<open>k\<close> counts the calls of the marine tool.
  An error envelope of the marine tool ends the loop and is the handler's result.
\<close>

fun assessWaypoints ::
  "AssessMarineTripInput \<Rightarrow> TripEnv \<Rightarrow> nat \<Rightarrow> Waypoint list
     \<Rightarrow> WaypointAssessment list \<Rightarrow> RiskHotspot list
     \<Rightarrow> MarineConditionsOutput CallToolResult + WaypointAssessment list \<times> RiskHotspot list" where
  "assessWaypoints input env k [] waypointAssessments allHotspots =
     Inr (waypointAssessments, allHotspots)"
| "assessWaypoints input env k (wp # rest) waypointAssessments allHotspots =
     (case handleMarineConditions
             \<lparr>mi_location = \<lparr>lat = wp_lat wp, lon = wp_lon wp, altitude = None\<rparr>,
              mi_timeWindow = ti_timeWindow input,
              mi_vesselType = ti_vesselType input,
              mi_language = ti_language input\<rparr>
             (marineEnv env k) of
        Inl marineResult \<Rightarrow> Inl marineResult
      | Inr marineOutput \<Rightarrow>
          (case scanHours wp (mo_hours marineOutput) (low, 0, allHotspots) of
             (maxRisk, highRiskHours, allHotspots') \<Rightarrow>
               assessWaypoints input env (k + 1) rest
                 (waypointAssessments @
                    [\<lparr>waypoint = wp, max_risk = maxRisk,
                      hours_assessed = length (mo_hours marineOutput),
                      high_risk_hours = highRiskHours\<rparr>])
                 allHotspots'))"

text \<open>
  The handler. \<open>Array.prototype.sort\<close> is stable, as \<open>sort_key\<close> is; the comparator
  \<open>riskToNumeric(b) - riskToNumeric(a)\<close> orders by descending level.
\<close>

definition handleAssessMarineTrip ::
  "AssessMarineTripInput \<Rightarrow> TripEnv
     \<Rightarrow> MarineConditionsOutput CallToolResult + AssessMarineTripOutput" where
  "handleAssessMarineTrip input env =
     (let sampledWaypoints = sampleWaypoints (route input) 5 in
      case assessWaypoints input env 0 sampledWaypoints [] [] of
        Inl marineResult \<Rightarrow> Inl marineResult
      | Inr (waypointAssessments, allHotspots) \<Rightarrow>
          (let overallRisk = aggregateTripRisk waypointAssessments;
               sorted = sort_key (\<lambda>h. - riskToNumeric (h_risk_level h)) allHotspots
           in Inr \<lparr>to_route = route input,
                   to_vesselType = ti_vesselType input,
                   to_timeWindow = \<lparr>rw_from = clockFrom env,
                                     rw_to = clockTo env + 48 * 60 * 60 * 1000\<rparr>,
                   overall_risk = overallRisk,
                   waypoint_assessments = waypointAssessments,
                   hotspots = sorted,
                   recommendation = generateRecommendation overallRisk (ti_vesselType input)\<rparr>))"

section \<open>Location forecast tool (tools/location-forecast.ts)\<close>

text \<open>
  One entry of the upstream time series, its optional sub-objects flattened:
  \<open>n1_symbol_code\<close> is \<open>data.next_1_hours?.summary?.symbol_code\<close>, and so on.
  \<open>f_instant\<close> is \<open>new Date(entry.time)\<close> in milliseconds, \<open>None\<close> for an invalid date.
\<close>

record MetTimeseries =
  f_time :: string
  f_instant :: "int option"
  i_air_temperature :: "rat option"
  i_wind_speed :: "rat option"
  i_wind_from_direction :: "rat option"
  i_relative_humidity :: "rat option"
  i_cloud_area_fraction :: "rat option"
  i_air_temperature_percentile_10 :: "rat option"
  i_air_temperature_percentile_90 :: "rat option"
  n1_symbol_code :: "string option"
  n1_precipitation_amount :: "rat option"
  n6_symbol_code :: "string option"
  n12_symbol_code :: "string option"

text \<open>A normalised hour. The unit fields of the source are constants and left out.\<close>

record WeatherPoint =
  w_time :: string
  air_temperature :: rat
  wind_speed :: rat
  wind_direction :: "rat option"
  precipitation_rate :: "rat option"
  relative_humidity :: "rat option"
  cloud_area_fraction :: "rat option"
  symbol_code :: string
  air_temperature_p10 :: "rat option"
  air_temperature_p90 :: "rat option"

datatype Resolution = hourly | three_hourly

text \<open>\<open>a || b\<close> on optional strings: \<open>a\<close> unless it is undefined or empty.\<close>

definition orString :: "string option \<Rightarrow> string option \<Rightarrow> string option" where
  "orString a b = (case a of None \<Rightarrow> b | Some s \<Rightarrow> if s = [] then b else Some s)"

definition weatherPoint :: "bool \<Rightarrow> MetTimeseries \<Rightarrow> WeatherPoint" where
  "weatherPoint includeProbabilistic entry =
     (let symbolCode =
            orElse (orString (orString (orString (n1_symbol_code entry) (n6_symbol_code entry))
                                (n12_symbol_code entry))
                      (Some ''unknown''))
              ''unknown'';
          precipitationRate = n1_precipitation_amount entry
      in \<lparr>w_time = f_time entry,
          air_temperature = orElse (i_air_temperature entry) 0,
          wind_speed = orElse (i_wind_speed entry) 0,
          wind_direction = i_wind_from_direction entry,
          precipitation_rate = precipitationRate,
          relative_humidity = i_relative_humidity entry,
          cloud_area_fraction = i_cloud_area_fraction entry,
          symbol_code = symbolCode,
          air_temperature_p10 =
            (if includeProbabilistic then i_air_temperature_percentile_10 entry else None),
          air_temperature_p90 =
            (if includeProbabilistic then i_air_temperature_percentile_90 entry else None)\<rparr>)"

text \<open>\<open>points.filter((_, index) => index % 3 === 0)\<close>.\<close>

fun everyThird :: "'a list \<Rightarrow> 'a list" where
  "everyThird (a # b # c # rest) = a # everyThird rest"
| "everyThird (a # rest) = [a]"
| "everyThird [] = []"

definition transformMetResponse ::
  "MetTimeseries list \<Rightarrow> ResolvedWindow \<Rightarrow> Resolution \<Rightarrow> bool \<Rightarrow> WeatherPoint list" where
  "transformMetResponse timeseries timeWindow resolution includeProbabilistic =
     (let points = map (weatherPoint includeProbabilistic)
                     (filter (\<lambda>entry. \<not> outsideWindow (f_instant entry) timeWindow) timeseries)
      in if resolution = three_hourly then everyThird points else points)"

record LocationForecastInput =
  fi_location :: Coordinate
  fi_timeWindow :: "TimeWindow option"
  fi_resolution :: Resolution
  fi_includeProbabilistic :: bool
  fi_language :: string

record LocationForecastOutput =
  fo_source :: SourceMetadata
  fo_location :: Coordinate
  fo_elevationUsed :: rat
  fo_timeWindow :: ResolvedWindow
  fo_hours :: "WeatherPoint list"

text \<open>
  The environment of one call of the forecast tool. The proxy is asked for latitude,
  longitude and optional altitude, and answers with the elevation
  (\<open>geometry.coordinates[2]\<close>) and the time series.
\<close>

record ForecastEnv =
  f_clock :: int
  fetchForecast :: "rat \<Rightarrow> rat \<Rightarrow> rat option \<Rightarrow> (rat \<times> MetTimeseries list) Fetched"

definition handleLocationForecast ::
  "LocationForecastInput \<Rightarrow> ForecastEnv
     \<Rightarrow> LocationForecastOutput CallToolResult + LocationForecastOutput" where
  "handleLocationForecast input env =
     (let timeWindow = resolveTimeWindow (fi_timeWindow input) (f_clock env) in
      case fetchForecast env (lat (fi_location input)) (lon (fi_location input))
             (altitude (fi_location input)) of
        ThrownWeatherError e \<Rightarrow> Inl (buildErrorResponse e)
      | ThrownOther msg \<Rightarrow>
          Inl (buildErrorResponse
                (createWeatherError INTERNAL_ERROR
                   ''An unexpected error occurred while fetching forecast data.''
                   (Some (noDetails\<lparr>error := Some msg\<rparr>))))
      | Answered (elevationUsed, timeseries) cache \<Rightarrow>
          Inr \<lparr>fo_source = buildSourceMetadata ''Locationforecast 2.0'' cache,
               fo_location = fi_location input,
               fo_elevationUsed = elevationUsed,
               fo_timeWindow = timeWindow,
               fo_hours = transformMetResponse timeseries timeWindow (fi_resolution input)
                            (fi_includeProbabilistic input)\<rparr>)"

section \<open>Activity scorer (tools/assess-outdoor-activity.ts)\<close>

datatype ActivityType = running | cycling | hiking | kids_playground | commuting | custom

datatype ComfortScore = good | ok | poor

record Preferences =
  p_minTemp :: "rat option"
  p_maxTemp :: "rat option"
  p_maxWind :: "rat option"
  p_avoidRain :: "bool option"
  p_avoidHeavyRain :: "bool option"

record ActivityThresholds =
  minTemp :: rat
  maxTemp :: rat
  maxWind :: rat
  avoidHeavyRain :: bool

text \<open>The table has no row for \<open>custom\<close> (its key type excludes it).\<close>

fun ACTIVITY_THRESHOLDS :: "ActivityType \<Rightarrow> ActivityThresholds option" where
  "ACTIVITY_THRESHOLDS running =
     Some \<lparr>minTemp = 5, maxTemp = 20, maxWind = 10, avoidHeavyRain = True\<rparr>"
| "ACTIVITY_THRESHOLDS cycling =
     Some \<lparr>minTemp = 8, maxTemp = 25, maxWind = 12, avoidHeavyRain = True\<rparr>"
| "ACTIVITY_THRESHOLDS hiking =
     Some \<lparr>minTemp = 5, maxTemp = 25, maxWind = 15, avoidHeavyRain = False\<rparr>"
| "ACTIVITY_THRESHOLDS kids_playground =
     Some \<lparr>minTemp = 10, maxTemp = 28, maxWind = 8, avoidHeavyRain = True\<rparr>"
| "ACTIVITY_THRESHOLDS commuting =
     Some \<lparr>minTemp = - 10, maxTemp = 35, maxWind = 20, avoidHeavyRain = False\<rparr>"
| "ACTIVITY_THRESHOLDS custom = None"

definition customDefaults :: "Preferences option \<Rightarrow> ActivityThresholds" where
  "customDefaults customPreferences =
     \<lparr>minTemp = orElse (Option.bind customPreferences p_minTemp) 5,
      maxTemp = orElse (Option.bind customPreferences p_maxTemp) 25,
      maxWind = orElse (Option.bind customPreferences p_maxWind) 15,
      avoidHeavyRain = orElse (Option.bind customPreferences p_avoidHeavyRain) False\<rparr>"

definition getThresholds :: "ActivityType \<Rightarrow> Preferences option \<Rightarrow> ActivityThresholds" where
  "getThresholds activity customPreferences =
     (let baseThresholds =
            (case ACTIVITY_THRESHOLDS activity of
               None \<Rightarrow> customDefaults customPreferences
             | Some row \<Rightarrow> row)
      in case customPreferences of
           None \<Rightarrow> baseThresholds
         | Some prefs \<Rightarrow>
             \<lparr>minTemp = orElse (p_minTemp prefs) (minTemp baseThresholds),
              maxTemp = orElse (p_maxTemp prefs) (maxTemp baseThresholds),
              maxWind = orElse (p_maxWind prefs) (maxWind baseThresholds),
              avoidHeavyRain = orElse (p_avoidHeavyRain prefs) (avoidHeavyRain baseThresholds)\<rparr>)"

text \<open>
  The reason text lists the failing dimensions, two of them with a \<open>toFixed(1)\<close>
  rendering of the measurement; the embedding keeps the list of issues.
\<close>

datatype Issue = TooCold | TooHot | Windy | Raining | HeavyRain

record Comfort =
  score :: ComfortScore
  temperature_ok :: bool
  wind_ok :: bool
  precipitation_ok :: bool
  reason :: "Issue list"

definition assessComfort ::
  "rat \<Rightarrow> rat \<Rightarrow> rat \<Rightarrow> ActivityThresholds \<Rightarrow> bool \<Rightarrow> Comfort" where
  "assessComfort temperature windSpeed precipitationRate thresholds avoidAllRain =
     (let temperature_ok' =
            (temperature \<ge> minTemp thresholds \<and> temperature \<le> maxTemp thresholds);
          wind_ok' = (windSpeed \<le> maxWind thresholds);
          precipitation_ok' =
            (if avoidAllRain then precipitationRate = 0
             else if avoidHeavyRain thresholds then precipitationRate < 25/10
             else True);
          issueCount = length (filter (\<lambda>ok. \<not> ok) [temperature_ok', wind_ok', precipitation_ok']);
          score' = (if issueCount = 0 then good else if issueCount = 1 then ok else poor);
          issues =
            (if \<not> temperature_ok'
             then (if temperature < minTemp thresholds then [TooCold] else [TooHot]) else [])
            @ (if \<not> wind_ok' then [Windy] else [])
            @ (if \<not> precipitation_ok'
               then (if avoidAllRain then [Raining] else [HeavyRain]) else [])
      in \<lparr>score = score', temperature_ok = temperature_ok', wind_ok = wind_ok',
          precipitation_ok = precipitation_ok', reason = issues\<rparr>)"

record ComfortSlot =
  s_time :: string
  s_temperature :: rat
  s_wind_speed :: rat
  s_precipitation_rate :: rat
  s_comfort :: Comfort

definition comfortSlot :: "ActivityThresholds \<Rightarrow> bool \<Rightarrow> WeatherPoint \<Rightarrow> ComfortSlot" where
  "comfortSlot thresholds avoidAllRain hour =
     \<lparr>s_time = w_time hour,
      s_temperature = air_temperature hour,
      s_wind_speed = wind_speed hour,
      s_precipitation_rate = orElse (precipitation_rate hour) 0,
      s_comfort = assessComfort (air_temperature hour) (wind_speed hour)
                    (orElse (precipitation_rate hour) 0) thresholds avoidAllRain\<rparr>"

record BestWindow =
  bw_from :: string
  bw_to :: string
  duration_hours :: nat

text \<open>
  \<open>identifyBestWindows\<close>: the loop state is the window under construction
  (\<open>currentWindow\<close>, \<open>null\<close> as \<open>None\<close>) and the windows found so far.
\<close>

definition closeWindow :: "BestWindow option \<Rightarrow> BestWindow list \<Rightarrow> BestWindow list" where
  "closeWindow currentWindow windows =
     (case currentWindow of
        None \<Rightarrow> windows
      | Some w \<Rightarrow> if duration_hours w \<ge> 2 then windows @ [w] else windows)"

fun scanSlots :: "ComfortSlot list \<Rightarrow> BestWindow option \<Rightarrow> BestWindow list \<Rightarrow> BestWindow list" where
  "scanSlots [] currentWindow windows = closeWindow currentWindow windows"
| "scanSlots (slot # rest) currentWindow windows =
     (if score (s_comfort slot) = good
      then (case currentWindow of
              None \<Rightarrow>
                scanSlots rest
                  (Some \<lparr>bw_from = s_time slot, bw_to = s_time slot, duration_hours = 1\<rparr>)
                  windows
            | Some w \<Rightarrow>
                scanSlots rest
                  (Some (w\<lparr>bw_to := s_time slot, duration_hours := duration_hours w + 1\<rparr>))
                  windows)
      else scanSlots rest None (closeWindow currentWindow windows))"

definition identifyBestWindows :: "ComfortSlot list \<Rightarrow> BestWindow list" where
  "identifyBestWindows slots = scanSlots slots None []"

record AssessOutdoorActivityInput =
  ai_location :: Coordinate
  ai_activity :: ActivityType
  ai_timeWindow :: "TimeWindow option"
  ai_preferences :: "Preferences option"
  ai_language :: string

record AssessOutdoorActivityOutput =
  ao_location :: "rat \<times> rat"
  ao_activity :: ActivityType
  ao_timeWindow :: ResolvedWindow
  slots :: "ComfortSlot list"
  bestWindows :: "BestWindow list"

definition handleAssessOutdoorActivity ::
  "AssessOutdoorActivityInput \<Rightarrow> ForecastEnv
     \<Rightarrow> LocationForecastOutput CallToolResult + AssessOutdoorActivityOutput" where
  "handleAssessOutdoorActivity input env =
     (let thresholds = getThresholds (ai_activity input) (ai_preferences input);
          avoidAllRain = orElse (Option.bind (ai_preferences input) p_avoidRain) False
      in case handleLocationForecast
                \<lparr>fi_location = ai_location input, fi_timeWindow = ai_timeWindow input,
                 fi_resolution = hourly, fi_includeProbabilistic = False,
                 fi_language = ai_language input\<rparr> env of
           Inl forecastResult \<Rightarrow> Inl forecastResult
         | Inr forecastOutput \<Rightarrow>
             (let slots' = map (comfortSlot thresholds avoidAllRain) (fo_hours forecastOutput)
              in Inr \<lparr>ao_location = (lat (ai_location input), lon (ai_location input)),
                      ao_activity = ai_activity input,
                      ao_timeWindow = fo_timeWindow forecastOutput,
                      slots = slots',
                      bestWindows = identifyBestWindows slots'\<rparr>))"

section \<open>Place resolver (places/types.ts, places/db.ts, places/matcher.ts)\<close>

record PlaceRecord =
  pr_id :: int
  ssr_id :: string
  primary_name :: string
  alt_names :: "string option"
  pr_lat :: rat
  pr_lon :: rat
  place_class :: "string option"
  municipality_code :: "string option"
  municipality_name :: "string option"
  county_name :: "string option"
  population :: "int option"
  is_county_seat :: int
  is_municipality_seat :: int
  importance_score :: "rat option"

datatype MatchType = exact_primary | exact_alt | prefix | fuzzy

text \<open>\<open>{ ...record, matchType, ftsRank }\<close>: the record with the match metadata.\<close>

record PlaceCandidate =
  c_record :: PlaceRecord
  matchType :: MatchType
  ftsRank :: "rat option"

text \<open>A match. Its constant field \<open>source\<close> is left out.\<close>

record PlaceMatch =
  m_id :: string
  m_name :: string
  m_alt_names :: "string list option"
  m_lat :: rat
  m_lon :: rat
  m_municipality_name :: "string option"
  m_municipality_code :: "string option"
  m_county_name :: "string option"
  m_place_class :: "string option"
  confidence :: rat

record ResolveOptions =
  query :: string
  limit :: int
  preferredPlaceClasses :: "string list option"
  preferredMunicipalityCode :: "string option"

text \<open>
  The store. Its three lookups are SQL queries against the gazetteer file; the embedding
  takes their results as functions of the arguments. A full-text row is a place record
  with its \<open>fts_rank\<close>.
\<close>

record PlacesDB =
  findExactPrimary :: "string \<Rightarrow> PlaceRecord list"
  findExactAlt :: "string \<Rightarrow> PlaceRecord list"
  findFTS :: "string \<Rightarrow> int \<Rightarrow> (PlaceRecord \<times> rat) list"

text \<open>
  \<open>normalizeNorwegian\<close>. \<open>toLowerCase\<close> moves an ASCII capital and a Latin-1 capital
  (\<open>0xC0\<close> to \<open>0xDE\<close> but \<open>0xD7\<close>) to its small letter, 32 above. \<open>trim\<close> and the class
  \<open>\s\<close> know the white space of \<open>isWhiteSpace\<close>. The last \<open>replace\<close> keeps the city of a
  text that is one of six cities, a comma, any white space and \<open>norge\<close> or \<open>norway\<close>; the
  text is in small letters by then, so the flag \<open>i\<close> changes nothing.
\<close>

definition lowerChar :: "char \<Rightarrow> char" where
  "lowerChar c =
     (let n = (of_char c :: nat)
      in if (65 \<le> n \<and> n \<le> 90) \<or> (192 \<le> n \<and> n \<le> 222 \<and> n \<noteq> 215)
         then char_of (n + 32)
         else c)"

definition toLowerCase :: "string \<Rightarrow> string" where
  "toLowerCase s = map lowerChar s"

definition trim :: "string \<Rightarrow> string" where
  "trim s = rev (dropWhile isWhiteSpace (rev (dropWhile isWhiteSpace s)))"

function collapseWhiteSpace :: "string \<Rightarrow> string" where
  "collapseWhiteSpace [] = []"
| "collapseWhiteSpace (c # cs) =
     (if isWhiteSpace c then CHR '' '' # collapseWhiteSpace (dropWhile isWhiteSpace cs)
      else c # collapseWhiteSpace cs)"
  by pat_completeness auto
termination
  by (relation "measure length") (auto simp: length_dropWhile_le less_Suc_eq_le)

definition cities :: "string list" where
  "cities = [''oslo'', ''bergen'', ''trondheim'', ''stavanger'',
             ''troms'' @ [CHR 0xF8], ''drammen'']"

fun stripPrefix :: "string \<Rightarrow> string \<Rightarrow> string option" where
  "stripPrefix [] s = Some s"
| "stripPrefix (p # ps) [] = None"
| "stripPrefix (p # ps) (c # cs) = (if p = c then stripPrefix ps cs else None)"

definition cityWithCountry :: "string \<Rightarrow> string \<Rightarrow> bool" where
  "cityWithCountry s city =
     (case stripPrefix (city @ '','') s of
        None \<Rightarrow> False
      | Some rest \<Rightarrow> dropWhile isWhiteSpace rest \<in> set [''norge'', ''norway''])"

definition normalizeNorwegian :: "string \<Rightarrow> string" where
  "normalizeNorwegian txt =
     (let s = collapseWhiteSpace (trim (toLowerCase txt))
      in case find (cityWithCountry s) cities of
           None \<Rightarrow> s
         | Some city \<Rightarrow> city)"

text \<open>
  \<open>mergeCandidates\<close>: three loops over the three result lists, sharing the set \<open>seen\<close>
  of record ids and the list \<open>candidates\<close>.
\<close>

fun mergeExact ::
  "MatchType \<Rightarrow> PlaceRecord list \<Rightarrow> int set \<times> PlaceCandidate list
     \<Rightarrow> int set \<times> PlaceCandidate list" where
  "mergeExact mt [] st = st"
| "mergeExact mt (r # rest) (seen, candidates) =
     (if pr_id r \<notin> seen
      then mergeExact mt rest
             (insert (pr_id r) seen,
              candidates @ [\<lparr>c_record = r, matchType = mt, ftsRank = None\<rparr>])
      else mergeExact mt rest (seen, candidates))"

fun mergeFts ::
  "(PlaceRecord \<times> rat) list \<Rightarrow> int set \<times> PlaceCandidate list
     \<Rightarrow> int set \<times> PlaceCandidate list" where
  "mergeFts [] st = st"
| "mergeFts ((r, fts_rank) # rest) (seen, candidates) =
     (if pr_id r \<notin> seen
      then mergeFts rest
             (insert (pr_id r) seen,
              candidates @ [\<lparr>c_record = r,
                              matchType = (if fts_rank < 0 then prefix else fuzzy),
                              ftsRank = Some \<bar>fts_rank\<bar>\<rparr>])
      else mergeFts rest (seen, candidates))"

definition mergeCandidates ::
  "PlaceRecord list \<Rightarrow> PlaceRecord list \<Rightarrow> (PlaceRecord \<times> rat) list \<Rightarrow> PlaceCandidate list" where
  "mergeCandidates exactPrimary exactAlt ftsResults =
     snd (mergeFts ftsResults
            (mergeExact exact_alt exactAlt
               (mergeExact exact_primary exactPrimary ({}, []))))"

text \<open>
  \<open>applyFilters\<close>. The comparator \<open>bMatch - aMatch\<close> of the stable \<open>sort\<close> puts the
  candidates of the preferred municipality first and keeps the order within the two
  groups. \<open>slice(0, n)\<close> with a negative \<open>n\<close> drops the last \<open>-n\<close> elements.
\<close>

definition slice0 :: "'a list \<Rightarrow> int \<Rightarrow> 'a list" where
  "slice0 xs n = (if n \<ge> 0 then take (nat n) xs else take (length xs - nat (- n)) xs)"

definition applyFilters :: "PlaceCandidate list \<Rightarrow> ResolveOptions \<Rightarrow> PlaceCandidate list" where
  "applyFilters candidates options =
     (let filtered1 =
            (case preferredPlaceClasses options of
               None \<Rightarrow> candidates
             | Some classes \<Rightarrow>
                 if classes = [] then candidates
                 else (let preferred =
                             filter (\<lambda>c. case place_class (c_record c) of
                                            None \<Rightarrow> False
                                          | Some pc \<Rightarrow> pc \<noteq> [] \<and> pc \<in> set classes)
                               candidates
                       in if preferred \<noteq> [] then preferred else candidates));
          filtered2 =
            (if truthy (preferredMunicipalityCode options)
             then filter (\<lambda>c. municipality_code (c_record c) = preferredMunicipalityCode options)
                    filtered1
                  @ filter (\<lambda>c. municipality_code (c_record c) \<noteq> preferredMunicipalityCode options)
                      filtered1
             else filtered1)
      in slice0 filtered2 (limit options * 2))"

text \<open>
  \<open>assignConfidence\<close>. \<open>candidate.ftsRank || 0\<close> is the rank unless it is undefined (or
  0). \<open>JSON.parse\<close> of the alternative names is an argument: the parsed list, \<open>None\<close>
  where it throws.
\<close>

definition clamp01 :: "rat \<Rightarrow> rat" where
  "clamp01 x = max 0 (min 1 x)"

definition scoreCandidate :: "(string \<Rightarrow> string list option) \<Rightarrow> PlaceCandidate \<Rightarrow> nat \<Rightarrow> PlaceMatch" where
  "scoreCandidate jsonParse candidate index =
     (let r = c_record candidate;
          base = (case matchType candidate of
                    exact_primary \<Rightarrow> 1
                  | exact_alt \<Rightarrow> 85/100
                  | prefix \<Rightarrow> 70/100
                  | fuzzy \<Rightarrow> 40/100 + min (30/100) (orElse (ftsRank candidate) 0 / 100));
          c1 = (if is_county_seat r = 1 then base + 5/100 else base);
          c2 = (if is_municipality_seat r = 1 then c1 + 3/100 else c1);
          c3 = (case importance_score r of
                  None \<Rightarrow> c2
                | Some imp \<Rightarrow> if imp > 0 then c2 + min (5/100) (imp / 10) else c2);
          c4 = c3 - rat_of_nat index * (1/100)
      in \<lparr>m_id = ssr_id r,
          m_name = primary_name r,
          m_alt_names = (if truthy (alt_names r) then jsonParse (the (alt_names r)) else None),
          m_lat = pr_lat r,
          m_lon = pr_lon r,
          m_municipality_name = orString (municipality_name r) None,
          m_municipality_code = orString (municipality_code r) None,
          m_county_name = orString (county_name r) None,
          m_place_class = orString (place_class r) None,
          confidence = clamp01 c4\<rparr>)"

definition assignConfidence ::
  "(string \<Rightarrow> string list option) \<Rightarrow> PlaceCandidate list \<Rightarrow> PlaceMatch list" where
  "assignConfidence jsonParse candidates =
     map (\<lambda>(candidate, index). scoreCandidate jsonParse candidate index)
       (zip candidates [0..<length candidates])"

definition resolveName ::
  "(string \<Rightarrow> string list option) \<Rightarrow> PlacesDB \<Rightarrow> ResolveOptions \<Rightarrow> PlaceMatch list" where
  "resolveName jsonParse db options =
     (let normalized = normalizeNorwegian (query options);
          exactPrimary = findExactPrimary db normalized;
          exactAlt = findExactAlt db normalized;
          ftsResults = findFTS db normalized (limit options * 3);
          candidates = mergeCandidates exactPrimary exactAlt ftsResults;
          filtered = applyFilters candidates options;
          scored = assignConfidence jsonParse filtered
      in slice0 scored (limit options))"

section \<open>The specification's words, as definitions\<close>

text \<open>
  The definitions of this section follow the specification, not the sources; the
  theorems compare them with the embedded functions.
\<close>

text \<open>
  The trip verdict, as the specification lists it: extreme if any waypoint's maximum is
  extreme; else dangerous if at least two waypoints have a maximum of high or above; else
  caution if any maximum is high; else caution if any maximum is moderate; else safe.
\<close>

definition spec_trip_verdict :: "WaypointAssessment list \<Rightarrow> TripRiskLevel" where
  "spec_trip_verdict ws =
     (if \<exists>w \<in> set ws. max_risk w = RiskLevel.extreme then TripRiskLevel.extreme
      else if 2 \<le> length (filter (\<lambda>w. max_risk w = high \<or> max_risk w = RiskLevel.extreme) ws)
        then dangerous
      else if \<exists>w \<in> set ws. max_risk w = high then caution
      else if \<exists>w \<in> set ws. max_risk w = moderate then caution
      else safe)"

text \<open>
  The specification's table of marine bounds: per vessel the rows low, moderate, high,
  each a pair (wave in m, current in m/s).
\<close>

definition spec_marine_bounds :: "VesselType \<Rightarrow> (rat \<times> rat) \<times> (rat \<times> rat) \<times> (rat \<times> rat)" where
  "spec_marine_bounds v =
     (case v of
        kayak \<Rightarrow> ((3/10, 5/10), (5/10, 1), (8/10, 15/10))
      | small_sailboat \<Rightarrow> ((5/10, 1), (1, 2), (15/10, 3))
      | motorboat \<Rightarrow> ((8/10, 15/10), (15/10, 25/10), (2, 4))
      | ship \<Rightarrow> ((2, 3), (35/10, 5), (5, 7)))"

text \<open>
  The specification's classifier: high when either measurement reaches its high bound,
  else moderate when either reaches its moderate bound, else low; bounds inclusive.
\<close>

definition spec_marine_risk :: "rat \<Rightarrow> rat \<Rightarrow> VesselType \<Rightarrow> RiskLevel" where
  "spec_marine_risk w c v =
     (case spec_marine_bounds v of
        (lo, mo, hi) \<Rightarrow>
          if w \<ge> fst hi \<or> c \<ge> snd hi then high
          else if w \<ge> fst mo \<or> c \<ge> snd mo then moderate
          else low)"

section \<open>Concrete inputs\<close>

text \<open>
  A two-waypoint route in the Oslo fjord, assessed for a kayak. The proxy answers every
  call with one entry, at noon of 1 June 2025, the clock standing at 11:00 of that day:
  a wave of 1.0 m at the second waypoint and of 0.1 m elsewhere.
\<close>

definition ex_route :: "Waypoint list" where
  "ex_route =
     [\<lparr>wp_lat = 599/10, wp_lon = 107/10, wp_name = None\<rparr>,
      \<lparr>wp_lat = 5985/100, wp_lon = 1075/100, wp_name = None\<rparr>]"

definition ex_entry :: "rat \<Rightarrow> OceanEntry" where
  "ex_entry w =
     \<lparr>e_time = ''2025-06-01T12:00:00Z'', e_instant = Some 1748779200000,
      sea_surface_wave_from_direction = None, sea_surface_wave_height = Some w,
      sea_water_speed = None, sea_water_temperature = None,
      sea_water_to_direction = None\<rparr>"

definition ex_marine_env :: MarineEnv where
  "ex_marine_env =
     \<lparr>clock = 1748775600000,
      fetchOcean = (\<lambda>la lo. Answered [ex_entry (if lo = 1075/100 then 1 else 1/10)]
                              \<lparr>cached = False, ageSeconds = None, status = Some MISS\<rparr>)\<rparr>"

definition ex_marine_input :: MarineConditionsInput where
  "ex_marine_input =
     \<lparr>mi_location = \<lparr>lat = 5985/100, lon = 1075/100, altitude = None\<rparr>,
      mi_timeWindow = None, mi_vesselType = kayak, mi_language = ''en''\<rparr>"

definition ex_trip_input :: AssessMarineTripInput where
  "ex_trip_input =
     \<lparr>route = ex_route, ti_vesselType = kayak, ti_timeWindow = None, ti_language = ''en''\<rparr>"

definition ex_trip_env :: TripEnv where
  "ex_trip_env =
     \<lparr>marineEnv = (\<lambda>k. ex_marine_env), clockFrom = 1748775600000, clockTo = 1748775600000\<rparr>"

text \<open>
  A route of nine waypoints up the Oslo fjord, one tenth of a degree apart.
\<close>

definition ex_wp :: "rat \<Rightarrow> Waypoint" where
  "ex_wp la = \<lparr>wp_lat = la, wp_lon = 105/10, wp_name = None\<rparr>"

definition ex_long_route :: "Waypoint list" where
  "ex_long_route =
     [ex_wp 59, ex_wp (591/10), ex_wp (592/10), ex_wp (593/10), ex_wp (594/10),
      ex_wp (595/10), ex_wp (596/10), ex_wp (597/10), ex_wp (598/10)]"

definition ex_long_input :: AssessMarineTripInput where
  "ex_long_input =
     \<lparr>route = ex_long_route, ti_vesselType = kayak, ti_timeWindow = None,
      ti_language = ''en''\<rparr>"

text \<open>
  The activity scorer's three booleans and its score, as the specification states them:
  the temperature within its bounds, the wind at most \<open>maxWind\<close>, the precipitation
  satisfying (avoidRain implies rate = 0) and (avoidHeavyRain implies rate < 2.5); the
  score good with no violated boolean, ok with exactly one, poor with two or more.
\<close>

definition spec_temperature_ok :: "rat \<Rightarrow> rat \<Rightarrow> rat \<Rightarrow> bool" where
  "spec_temperature_ok lo hi t = (lo \<le> t \<and> t \<le> hi)"

definition spec_wind_ok :: "rat \<Rightarrow> rat \<Rightarrow> bool" where
  "spec_wind_ok mx w = (w \<le> mx)"

definition spec_precipitation_ok :: "bool \<Rightarrow> bool \<Rightarrow> rat \<Rightarrow> bool" where
  "spec_precipitation_ok avoidRain avoidHeavy rate =
     ((avoidRain \<longrightarrow> rate = 0) \<and> (avoidHeavy \<longrightarrow> rate < 25/10))"

definition spec_violations :: "bool \<Rightarrow> bool \<Rightarrow> bool \<Rightarrow> nat" where
  "spec_violations a b c =
     (if a then 0 else 1) + (if b then 0 else 1) + (if c then 0 else 1)"

definition spec_score :: "nat \<Rightarrow> ComfortScore" where
  "spec_score violations =
     (if violations = 0 then good else if violations = 1 then ok else poor)"




fun statusText :: "CacheStatus \<Rightarrow> string" where
  "statusText HIT = ''HIT''"
| "statusText MISS = ''MISS''"
| "statusText EXPIRED = ''EXPIRED''"
| "statusText BYPASS = ''BYPASS''"



text \<open>The summary's suffix, and the \<open>retryAfterSeconds\<close> of an error, if any.\<close>

definition spec_retry_suffix :: "int \<Rightarrow> string" where
  "spec_retry_suffix n = '' Retry after '' @ numberToString n @ '' seconds.''"

definition retryAfterOf :: "WeatherError \<Rightarrow> int option" where
  "retryAfterOf err = Option.bind (details err) retryAfterSeconds"



text \<open>
  A forecast of three hours at noon, 13:00 and 14:00 of 1 June 2025 for a runner in Oslo:
  8 degrees, 5 m/s and dry; then 25 degrees, wind exactly 10 m/s and 3 mm/h; then
  8 degrees, 12 m/s and no precipitation reported.
\<close>

definition ex_hour :: "string \<Rightarrow> int \<Rightarrow> rat \<Rightarrow> rat \<Rightarrow> rat option \<Rightarrow> MetTimeseries" where
  "ex_hour tm ms t w p =
     \<lparr>f_time = tm, f_instant = Some ms,
      i_air_temperature = Some t, i_wind_speed = Some w, i_wind_from_direction = None,
      i_relative_humidity = None, i_cloud_area_fraction = None,
      i_air_temperature_percentile_10 = None, i_air_temperature_percentile_90 = None,
      n1_symbol_code = Some ''cloudy'', n1_precipitation_amount = p,
      n6_symbol_code = None, n12_symbol_code = None\<rparr>"

definition ex_forecast_env :: ForecastEnv where
  "ex_forecast_env =
     \<lparr>f_clock = 1748775600000,
      fetchForecast = (\<lambda>la lo al.
        Answered (12,
          [ex_hour ''2025-06-01T12:00:00Z'' 1748779200000 8 5 (Some 0),
           ex_hour ''2025-06-01T13:00:00Z'' 1748782800000 25 10 (Some 3),
           ex_hour ''2025-06-01T14:00:00Z'' 1748786400000 8 12 None])
          \<lparr>cached = True, ageSeconds = Some 60, status = Some HIT\<rparr>)\<rparr>"

definition ex_activity_input :: AssessOutdoorActivityInput where
  "ex_activity_input =
     \<lparr>ai_location = \<lparr>lat = 5991/100, lon = 1075/100, altitude = None\<rparr>,
      ai_activity = running,
      ai_timeWindow = Some \<lparr>kind = None, tw_from = None, tw_to = None, preset = Some next_24h\<rparr>,
      ai_preferences = None,
      ai_language = ''en''\<rparr>"


definition ex_retry_headers :: "string \<Rightarrow> Headers" where
  "ex_retry_headers v = (\<lambda>name. if name = ''Retry-After'' then Some v else None)"

definition ex_rate_limited :: "string \<Rightarrow> WeatherError" where
  "ex_rate_limited v =
     handleHttpError 429 ''Too Many Requests'' (Some (ex_retry_headers v)) None"




text \<open>
  A store that answers the full-text search for \<open>sand\<close> with two rows in rank order, a
  farm and then a town that is a municipality seat, and has no exact match; and the
  request for \<open>sand\<close> with the default limit 5.
\<close>

definition ex_place :: "int \<Rightarrow> string \<Rightarrow> string \<Rightarrow> rat \<Rightarrow> int \<Rightarrow> PlaceRecord" where
  "ex_place i nm cls imp seat =
     \<lparr>pr_id = i, ssr_id = nm, primary_name = nm, alt_names = None,
      pr_lat = 589/10, pr_lon = 57/10, place_class = Some cls,
      municipality_code = Some ''1108'', municipality_name = Some ''Sandnes'',
      county_name = Some ''Rogaland'', population = None,
      is_county_seat = 0, is_municipality_seat = seat, importance_score = Some imp\<rparr>"

definition ex_rows :: "(PlaceRecord \<times> rat) list" where
  "ex_rows =
     [(ex_place 1 ''Sandvik'' ''farm'' 2 0, - 85/10),
      (ex_place 2 ''Sandnes'' ''town'' 8 1, - 8)]"

definition ex_db :: PlacesDB where
  "ex_db =
     \<lparr>findExactPrimary = (\<lambda>name. []),
      findExactAlt = (\<lambda>name. []),
      findFTS = (\<lambda>q n. if q = ''sand'' then ex_rows else [])\<rparr>"

definition ex_options :: ResolveOptions where
  "ex_options =
     \<lparr>query = ''sand'', limit = 5, preferredPlaceClasses = None,
      preferredMunicipalityCode = None\<rparr>"

section \<open>Theorems\<close>

subsection \<open>Error taxonomy\<close>

text \<open>
  Claim C5. Every error record built by the taxonomy has \<open>retryable\<close> true exactly when
  its code is \<open>RATE_LIMITED\<close> or \<open>MET_API_UNAVAILABLE\<close> (the upstream-unavailable code of
  the source), and false for \<open>INVALID_INPUT\<close>, \<open>OUT_OF_COVERAGE\<close> and \<open>INTERNAL_ERROR\<close>.
  The record keeps the code it was built with, so the flag is a function of the code.
\<close>

theorem retryable_iff_code:
  "code (createWeatherError c m d) = c
   \<and> retryable (createWeatherError c m d) = (c \<in> {RATE_LIMITED, MET_API_UNAVAILABLE})
   \<and> retryable (createWeatherError RATE_LIMITED m d)
   \<and> retryable (createWeatherError MET_API_UNAVAILABLE m d)
   \<and> \<not> retryable (createWeatherError INVALID_INPUT m d)
   \<and> \<not> retryable (createWeatherError OUT_OF_COVERAGE m d)
   \<and> \<not> retryable (createWeatherError INTERNAL_ERROR m d)"
  by (simp add: createWeatherError_def)

subsection \<open>Trip verdict\<close>

lemma fold_max_ge: "fold max xs (a::int) \<ge> k \<longleftrightarrow> a \<ge> k \<or> (\<exists>x \<in> set xs. x \<ge> k)"
  by (induction xs arbitrary: a) (auto simp: max_def)

lemma at_least_math_max: "at_least (math_max xs) k \<longleftrightarrow> (\<exists>x \<in> set xs. x \<ge> k)"
  by (cases xs) (auto simp: at_least_def math_max_def fold_max_ge)

lemma risk_ge3: "riskToNumeric r \<ge> 3 \<longleftrightarrow> r = RiskLevel.extreme"
  by (cases r) auto

lemma risk_ge2: "riskToNumeric r \<ge> 2 \<longleftrightarrow> r = high \<or> r = RiskLevel.extreme"
  by (cases r) auto

lemma risk_ge1: "riskToNumeric r \<ge> 1 \<longleftrightarrow> r = moderate \<or> r = high \<or> r = RiskLevel.extreme"
  by (cases r) auto

lemma max_at_least:
  "at_least (math_max (map (\<lambda>w. riskToNumeric (max_risk w)) ws)) k
     \<longleftrightarrow> (\<exists>w \<in> set ws. riskToNumeric (max_risk w) \<ge> k)"
  by (simp add: at_least_math_max)

text \<open>
  Claim C3. The verdict of \<open>aggregateTripRisk\<close> is the specification's roll-up, for every
  list of waypoint assessments (the non-empty ones of the claim among them; on the empty
  list both give \<open>safe\<close>).
\<close>

theorem aggregateTripRisk_verdict:
  "aggregateTripRisk ws = spec_trip_verdict ws"
proof -
  define E where "E \<longleftrightarrow> (\<exists>w\<in>set ws. max_risk w = RiskLevel.extreme)"
  define H where "H \<longleftrightarrow> (\<exists>w\<in>set ws. max_risk w = high)"
  define M where "M \<longleftrightarrow> (\<exists>w\<in>set ws. max_risk w = moderate)"
  define N where "N = length (filter (\<lambda>w. max_risk w = high \<or> max_risk w = RiskLevel.extreme) ws)"
  have m3: "at_least (math_max (map (\<lambda>w. riskToNumeric (max_risk w)) ws)) 3 \<longleftrightarrow> E"
    unfolding max_at_least risk_ge3 E_def ..
  have m2: "at_least (math_max (map (\<lambda>w. riskToNumeric (max_risk w)) ws)) 2 \<longleftrightarrow> H \<or> E"
    unfolding max_at_least risk_ge2 E_def H_def by blast
  have m1: "at_least (math_max (map (\<lambda>w. riskToNumeric (max_risk w)) ws)) 1 \<longleftrightarrow> M \<or> H \<or> E"
    unfolding max_at_least risk_ge1 E_def H_def M_def by blast
  have n: "length (filter (\<lambda>w. riskToNumeric (max_risk w) \<ge> 2) ws) = N"
    unfolding risk_ge2 N_def ..
  have c: "H \<or> E" if "2 \<le> N"
  proof -
    from that have "filter (\<lambda>w. max_risk w = high \<or> max_risk w = RiskLevel.extreme) ws \<noteq> []"
      unfolding N_def by auto
    then show ?thesis
      unfolding H_def E_def by (auto simp: filter_empty_conv)
  qed
  have lhs: "aggregateTripRisk ws =
      (if E then TripRiskLevel.extreme
       else if H \<or> E then (if 2 \<le> N then dangerous else caution)
       else if M \<or> H \<or> E then caution else safe)"
    unfolding aggregateTripRisk_def Let_def m3 m2 m1 n ..
  have rhs: "spec_trip_verdict ws =
      (if E then TripRiskLevel.extreme
       else if 2 \<le> N then dangerous
       else if H then caution
       else if M then caution else safe)"
    unfolding spec_trip_verdict_def E_def H_def M_def N_def ..
  show ?thesis
    unfolding lhs rhs using c by auto
qed

subsection \<open>Marine risk classifier\<close>

text \<open>
  Claim C4. For every wave height, current speed and vessel type, \<open>assessRiskLevel\<close>
  returns the tier of the specification's classifier over the specification's table:
  high when either measurement reaches its high bound, else moderate when either reaches
  its moderate bound, else low. The table of the source is the table of the
  specification, and the comparisons are inclusive: a wave (or a current) exactly at a
  bound, the other measurement being zero, already gives that bound's tier.
\<close>

theorem assessRiskLevel_tiers:
  "fst (assessRiskLevel w c v) = spec_marine_risk w c v
   \<and> (case spec_marine_bounds v of (lo, mo, hi) \<Rightarrow>
         t_low (RISK_THRESHOLDS v) = \<lparr>wave = fst lo, current = snd lo\<rparr>
       \<and> t_moderate (RISK_THRESHOLDS v) = \<lparr>wave = fst mo, current = snd mo\<rparr>
       \<and> t_high (RISK_THRESHOLDS v) = \<lparr>wave = fst hi, current = snd hi\<rparr>
       \<and> fst (assessRiskLevel (fst hi) 0 v) = high
       \<and> fst (assessRiskLevel 0 (snd hi) v) = high
       \<and> fst (assessRiskLevel (fst mo) 0 v) = moderate
       \<and> fst (assessRiskLevel 0 (snd mo) v) = moderate
       \<and> fst (assessRiskLevel (fst lo) 0 v) = low)"
  by (cases v) (simp_all add: assessRiskLevel_def spec_marine_risk_def spec_marine_bounds_def)

subsection \<open>The marine tool never assigns extreme\<close>

lemma assessRiskLevel_not_extreme: "fst (assessRiskLevel w c v) \<noteq> RiskLevel.extreme"
  by (simp add: assessRiskLevel_def Let_def)

lemma marinePoint_not_extreme: "risk_level (marinePoint v e) \<noteq> RiskLevel.extreme"
  using assessRiskLevel_not_extreme
    [of "orElse (sea_surface_wave_height e) 0" "orElse (sea_water_speed e) 0" v]
  by (simp add: marinePoint_def Let_def case_prod_beta)

lemma marine_hours_not_extreme:
  assumes "handleMarineConditions input env = Inr out"
  shows "\<forall>p \<in> set (mo_hours out). risk_level p \<noteq> RiskLevel.extreme"
proof -
  obtain ts w v where "mo_hours out = transformMetResponse_marine ts w v"
    using assms
    by (auto simp: handleMarineConditions_def Let_def split: if_splits Fetched.splits)
  then show ?thesis
    by (auto simp: transformMetResponse_marine_def marinePoint_not_extreme)
qed

lemma scanHours_not_extreme:
  assumes "\<forall>p \<in> set hours. risk_level p \<noteq> RiskLevel.extreme"
    and "fst st \<noteq> RiskLevel.extreme"
    and "\<forall>h \<in> set (snd (snd st)). h_risk_level h \<noteq> RiskLevel.extreme"
  shows "fst (scanHours wp hours st) \<noteq> RiskLevel.extreme
       \<and> (\<forall>h \<in> set (snd (snd (scanHours wp hours st))). h_risk_level h \<noteq> RiskLevel.extreme)"
  using assms
proof (induction wp hours st rule: scanHours.induct)
  case (1 wp st)
  then show ?case by simp
next
  case (2 wp hour rest maxRisk highRiskHours allHotspots)
  show ?case
    unfolding scanHours.simps Let_def
    by (rule "2.IH"[unfolded Let_def, OF refl refl refl refl]) (use "2.prems" in auto)
qed

text \<open>The step of the outer loop, as an equation on a successful run.\<close>

lemma assessWaypoints_step:
  assumes "assessWaypoints input env k (wp # rest) was hs = Inr (was', hs')"
  obtains mo m n hs1 where
    "handleMarineConditions
       \<lparr>mi_location = \<lparr>lat = wp_lat wp, lon = wp_lon wp, altitude = None\<rparr>,
        mi_timeWindow = ti_timeWindow input,
        mi_vesselType = ti_vesselType input,
        mi_language = ti_language input\<rparr> (marineEnv env k) = Inr mo"
    and "scanHours wp (mo_hours mo) (low, 0, hs) = (m, n, hs1)"
    and "assessWaypoints input env (k + 1) rest
           (was @ [\<lparr>waypoint = wp, max_risk = m, hours_assessed = length (mo_hours mo),
                    high_risk_hours = n\<rparr>]) hs1 = Inr (was', hs')"
proof -
  let ?mi = "\<lparr>mi_location = \<lparr>lat = wp_lat wp, lon = wp_lon wp, altitude = None\<rparr>,
              mi_timeWindow = ti_timeWindow input,
              mi_vesselType = ti_vesselType input,
              mi_language = ti_language input\<rparr>"
  from assms obtain mo where mo: "handleMarineConditions ?mi (marineEnv env k) = Inr mo"
    by (auto split: sum.splits)
  obtain m n hs1 where sc: "scanHours wp (mo_hours mo) (low, 0, hs) = (m, n, hs1)"
    by (cases "scanHours wp (mo_hours mo) (low, 0, hs)") auto
  have "assessWaypoints input env (k + 1) rest
       (was @ [\<lparr>waypoint = wp, max_risk = m, hours_assessed = length (mo_hours mo),
                high_risk_hours = n\<rparr>]) hs1 = Inr (was', hs')"
    using assms mo sc by simp
  with mo sc show ?thesis
    by (rule that)
qed

lemma assessWaypoints_not_extreme:
  assumes "assessWaypoints input env k wps was hs = Inr (was', hs')"
    and "\<forall>a \<in> set was. max_risk a \<noteq> RiskLevel.extreme"
    and "\<forall>h \<in> set hs. h_risk_level h \<noteq> RiskLevel.extreme"
  shows "(\<forall>a \<in> set was'. max_risk a \<noteq> RiskLevel.extreme)
       \<and> (\<forall>h \<in> set hs'. h_risk_level h \<noteq> RiskLevel.extreme)"
  using assms
proof (induction wps arbitrary: k was hs)
  case Nil
  then show ?case by simp
next
  case (Cons wp rest)
  from Cons.prems(1) obtain mo m n hs1 where
    mo: "handleMarineConditions
       \<lparr>mi_location = \<lparr>lat = wp_lat wp, lon = wp_lon wp, altitude = None\<rparr>,
        mi_timeWindow = ti_timeWindow input,
        mi_vesselType = ti_vesselType input,
        mi_language = ti_language input\<rparr> (marineEnv env k) = Inr mo"
    and sc: "scanHours wp (mo_hours mo) (low, 0, hs) = (m, n, hs1)"
    and rec: "assessWaypoints input env (k + 1) rest
           (was @ [\<lparr>waypoint = wp, max_risk = m, hours_assessed = length (mo_hours mo),
                    high_risk_hours = n\<rparr>]) hs1 = Inr (was', hs')"
    by (rule assessWaypoints_step)
  have inv: "m \<noteq> RiskLevel.extreme \<and> (\<forall>h \<in> set hs1. h_risk_level h \<noteq> RiskLevel.extreme)"
    using scanHours_not_extreme[of "mo_hours mo" "(low, 0, hs)" wp]
      marine_hours_not_extreme[OF mo] Cons.prems(3) sc
    by simp
  show ?case
    by (rule Cons.IH[OF rec]) (use inv Cons.prems(2) in auto)
qed

lemma aggregate_not_extreme:
  assumes "\<forall>a \<in> set was. max_risk a \<noteq> RiskLevel.extreme"
  shows "aggregateTripRisk was \<noteq> TripRiskLevel.extreme"
proof -
  have "\<not> at_least (math_max (map (\<lambda>w. riskToNumeric (max_risk w)) was)) 3"
    unfolding max_at_least risk_ge3 using assms by blast
  then show ?thesis
    by (simp add: aggregateTripRisk_def Let_def)
qed

text \<open>The two concrete runs, evaluated.\<close>

lemma ex_marine_run:
  "handleMarineConditions ex_marine_input ex_marine_env =
     Inr \<lparr>mo_source = buildSourceMetadata ''Oceanforecast 2.0''
                        \<lparr>cached = False, ageSeconds = None, status = Some MISS\<rparr>,
          mo_location = (5985/100, 1075/100),
          mo_timeWindow = \<lparr>rw_from = 1748775600000, rw_to = 1748948400000\<rparr>,
          mo_vesselType = kayak,
          mo_hours = [\<lparr>p_time = ''2025-06-01T12:00:00Z'', wave_height = 1, wave_direction = 0,
                       water_temperature = 0, water_speed = 0, water_direction = 0,
                       risk_level = high, risk_notes = [HighWave]\<rparr>]\<rparr>"
  by (simp add: handleMarineConditions_def ex_marine_input_def ex_marine_env_def
      isCoastalNorway_def resolveTimeWindow_marine_def transformMetResponse_marine_def
      outsideWindow_def ex_entry_def marinePoint_def orElse_def assessRiskLevel_def)

lemma ex_trip_run:
  "\<not> isl (handleAssessMarineTrip ex_trip_input ex_trip_env)
   \<and> overall_risk (projr (handleAssessMarineTrip ex_trip_input ex_trip_env)) = caution
   \<and> map h_risk_level (hotspots (projr (handleAssessMarineTrip ex_trip_input ex_trip_env)))
       = [high]
   \<and> map h_location (hotspots (projr (handleAssessMarineTrip ex_trip_input ex_trip_env)))
       = [ex_route ! 1]
   \<and> map max_risk
        (waypoint_assessments (projr (handleAssessMarineTrip ex_trip_input ex_trip_env)))
       = [low, high]"
  by (simp add: handleAssessMarineTrip_def ex_trip_input_def ex_trip_env_def ex_route_def
      sampleWaypoints_def handleMarineConditions_def ex_marine_env_def
      isCoastalNorway_def resolveTimeWindow_marine_def transformMetResponse_marine_def
      outsideWindow_def ex_entry_def marinePoint_def orElse_def assessRiskLevel_def
      aggregateTripRisk_def math_max_def at_least_def)

text \<open>
  Claim C9. For every wave height, current speed and vessel type the per-point classifier
  returns low, moderate or high, never extreme; so every point of a successful marine
  output has one of these three levels, and in every successful trip assessment no
  waypoint maximum and no hotspot is extreme and the verdict is not extreme.
\<close>

theorem marine_never_extreme:
  "fst (assessRiskLevel w c v) \<in> {low, moderate, high}
   \<and> (handleMarineConditions mInput mEnv = Inr mOut \<longrightarrow>
        (\<forall>p \<in> set (mo_hours mOut). risk_level p \<in> {low, moderate, high}))
   \<and> (handleAssessMarineTrip input env = Inr out \<longrightarrow>
        (\<forall>a \<in> set (waypoint_assessments out). max_risk a \<noteq> RiskLevel.extreme)
      \<and> (\<forall>h \<in> set (hotspots out). h_risk_level h \<noteq> RiskLevel.extreme)
      \<and> overall_risk out \<noteq> TripRiskLevel.extreme)"
proof -
  have lv: "r \<in> {low, moderate, high}" if "r \<noteq> RiskLevel.extreme" for r
    using that by (cases r) auto
  have a: "fst (assessRiskLevel w c v) \<in> {low, moderate, high}"
    by (rule lv) (rule assessRiskLevel_not_extreme)
  have b: "\<forall>p \<in> set (mo_hours mOut). risk_level p \<in> {low, moderate, high}"
    if "handleMarineConditions mInput mEnv = Inr mOut"
    using marine_hours_not_extreme[OF that] lv by blast
  have c: "(\<forall>a \<in> set (waypoint_assessments out). max_risk a \<noteq> RiskLevel.extreme)
      \<and> (\<forall>h \<in> set (hotspots out). h_risk_level h \<noteq> RiskLevel.extreme)
      \<and> overall_risk out \<noteq> TripRiskLevel.extreme"
    if h: "handleAssessMarineTrip input env = Inr out"
  proof -
    from h obtain was hs where
      loop: "assessWaypoints input env 0 (sampleWaypoints (route input) 5) [] [] = Inr (was, hs)"
      and w: "waypoint_assessments out = was"
      and s: "hotspots out = sort_key (\<lambda>h. - riskToNumeric (h_risk_level h)) hs"
      and o: "overall_risk out = aggregateTripRisk was"
      by (auto simp: handleAssessMarineTrip_def Let_def split: sum.splits prod.splits)
    have inv: "(\<forall>a \<in> set was. max_risk a \<noteq> RiskLevel.extreme)
       \<and> (\<forall>h \<in> set hs. h_risk_level h \<noteq> RiskLevel.extreme)"
      by (rule assessWaypoints_not_extreme[OF loop]) simp_all
    show ?thesis
      using inv aggregate_not_extreme[of was] by (simp add: w s o)
  qed
  show ?thesis
    using a b c by blast
qed

theorem marine_never_extreme_witness:
  "fst (assessRiskLevel 1 0 kayak) = high
   \<and> \<not> isl (handleMarineConditions ex_marine_input ex_marine_env)
   \<and> map risk_level (mo_hours (projr (handleMarineConditions ex_marine_input ex_marine_env)))
       = [high]
   \<and> \<not> isl (handleAssessMarineTrip ex_trip_input ex_trip_env)
   \<and> overall_risk (projr (handleAssessMarineTrip ex_trip_input ex_trip_env)) = caution
   \<and> overall_risk (projr (handleAssessMarineTrip ex_trip_input ex_trip_env))
       \<noteq> TripRiskLevel.extreme
   \<and> map h_risk_level (hotspots (projr (handleAssessMarineTrip ex_trip_input ex_trip_env)))
       = [high]"
proof -
  have e: "fst (assessRiskLevel 1 0 kayak) = high"
    by (simp add: assessRiskLevel_def)
  have t: "handleAssessMarineTrip ex_trip_input ex_trip_env
         = Inr (projr (handleAssessMarineTrip ex_trip_input ex_trip_env))"
    using ex_trip_run by (cases "handleAssessMarineTrip ex_trip_input ex_trip_env") auto
  show ?thesis
    using marine_never_extreme[of 1 0 kayak ex_marine_input ex_marine_env
        "projr (handleMarineConditions ex_marine_input ex_marine_env)"
        ex_trip_input ex_trip_env
        "projr (handleAssessMarineTrip ex_trip_input ex_trip_env)"]
      e t ex_trip_run
    by (simp add: ex_marine_run)
qed

subsection \<open>Waypoint sampling\<close>

lemma math_round_stride:
  "math_round (rat_of_nat i * ((rat_of_nat n - 1) / (rat_of_nat 5 - 1)))
     = (int i * (int n - 1) + 2) div 4"
proof -
  have "rat_of_nat i * ((rat_of_nat n - 1) / (rat_of_nat 5 - 1)) + 1/2
      = rat_of_int (int i * (int n - 1) + 2) / rat_of_int 4"
    by (simp add: field_simps)
  then show ?thesis
    unfolding math_round_def by (simp only: floor_divide_of_int_eq)
qed

lemma stride_index:
  assumes "1 \<le> n"
  shows "nat (math_round (rat_of_nat i * ((rat_of_nat n - 1) / (rat_of_nat 5 - 1))))
           = (i * (n - 1) + 2) div 4"
proof -
  obtain m where m: "n = Suc m"
    using assms by (cases n) auto
  have "int i * (int n - 1) + 2 = int (i * m + 2)"
    by (simp add: m)
  then have "(int i * (int n - 1) + 2) div 4 = int ((i * m + 2) div 4)"
    by (simp only: zdiv_int of_nat_numeral)
  then have "nat (math_round (rat_of_nat i * ((rat_of_nat n - 1) / (rat_of_nat 5 - 1))))
           = (i * m + 2) div 4"
    by (simp only: math_round_stride nat_int)
  then show ?thesis
    by (simp add: m)
qed

lemma sample_index_in_range:
  assumes "1 \<le> (n::nat)" "i \<le> 4"
  shows "(i * (n - 1) + 2) div 4 < n"
proof -
  have "i * (n - 1) \<le> 4 * (n - 1)"
    using assms(2) by (rule mult_le_mono1)
  then have "i * (n - 1) + 2 < n * 4"
    using assms(1) by linarith
  then show ?thesis
    by (rule less_mult_imp_div_less)
qed

lemma stride_step:
  assumes "4 \<le> (k::nat)" "i < j"
  shows "(i * k + 2) div 4 < (j * k + 2) div 4"
proof -
  have "Suc i * k \<le> j * k"
    using assms(2) by (intro mult_le_mono1) simp
  then have "(i * k + 2) + 4 \<le> j * k + 2"
    using assms(1) by simp
  then show ?thesis
    by arith
qed

lemma stride_increasing:
  assumes "5 < (n::nat)"
  shows "sorted_wrt (<) (map (\<lambda>i. (i * (n - 1) + 2) div 4) [0..<5])"
proof -
  have k: "4 \<le> n - 1" using assms by simp
  have "sorted_wrt (\<lambda>i j. (i * (n - 1) + 2) div 4 < (j * (n - 1) + 2) div 4) [0..<5]"
  proof (rule sorted_wrt_mono_rel[of _ "(<)"])
    show "(x * (n - 1) + 2) div 4 < (y * (n - 1) + 2) div 4" if "x < y" for x y
      using k that by (rule stride_step)
    show "sorted_wrt (<) [0..<5::nat]"
      by simp
  qed
  then show ?thesis
    by (simp only: sorted_wrt_map)
qed

lemma sample_long:
  assumes "5 < length rt"
  shows "sampleWaypoints rt 5
           = map (\<lambda>i. rt ! ((i * (length rt - 1) + 2) div 4)) [0..<5]"
proof -
  let ?g = "\<lambda>i. rt ! ((i * (length rt - 1) + 2) div 4)"
  have n: "1 \<le> length rt" using assms by simp
  have "\<not> length rt \<le> 5" using assms by simp
  then have a: "sampleWaypoints rt 5 =
      [rt ! 0] @ map (\<lambda>i. rt ! nat (math_round (rat_of_nat i *
          ((rat_of_nat (length rt) - 1) / (rat_of_nat 5 - 1))))) [1..<5 - 1]
        @ [rt ! (length rt - 1)]"
    unfolding sampleWaypoints_def Let_def by (simp only: if_False)
  have b: "sampleWaypoints rt 5 = [rt ! 0] @ map ?g [1..<5 - 1] @ [rt ! (length rt - 1)]"
    unfolding a by (simp only: stride_index[OF n])
  have g0: "?g 0 = rt ! 0" by simp
  have "(4 * (length rt - 1) + 2) div 4 = length rt - 1" by arith
  then have g4: "?g 4 = rt ! (length rt - 1)" by (simp only:)
  have u: "[0..<5] = [0] @ [1..<5 - 1] @ [4::nat]"
    by (simp add: upt_rec)
  have "map ?g [0..<5] = [?g 0] @ map ?g [1..<5 - 1] @ [?g 4]"
    unfolding u by (simp only: map_append list.map)
  then show ?thesis
    unfolding b g0 g4 by simp
qed

lemma sample_short:
  "length rt \<le> 5 \<Longrightarrow> sampleWaypoints rt 5 = rt"
  by (simp add: sampleWaypoints_def)

lemma assessWaypoints_waypoints:
  assumes "assessWaypoints input env k wps was hs = Inr (was', hs')"
  shows "map waypoint was' = map waypoint was @ wps"
  using assms
proof (induction wps arbitrary: k was hs)
  case Nil
  then show ?case by simp
next
  case (Cons wp rest)
  from Cons.prems obtain mo m n hs1 where
    "handleMarineConditions
       \<lparr>mi_location = \<lparr>lat = wp_lat wp, lon = wp_lon wp, altitude = None\<rparr>,
        mi_timeWindow = ti_timeWindow input,
        mi_vesselType = ti_vesselType input,
        mi_language = ti_language input\<rparr> (marineEnv env k) = Inr mo"
    and "scanHours wp (mo_hours mo) (low, 0, hs) = (m, n, hs1)"
    and rec: "assessWaypoints input env (k + 1) rest
           (was @ [\<lparr>waypoint = wp, max_risk = m, hours_assessed = length (mo_hours mo),
                    high_risk_hours = n\<rparr>]) hs1 = Inr (was', hs')"
    by (rule assessWaypoints_step)
  show ?case
    using Cons.IH[OF rec] by simp
qed

lemma trip_assesses_sample:
  assumes "handleAssessMarineTrip input env = Inr out"
  shows "map waypoint (waypoint_assessments out) = sampleWaypoints (route input) 5"
proof -
  from assms obtain was hs where
    loop: "assessWaypoints input env 0 (sampleWaypoints (route input) 5) [] [] = Inr (was, hs)"
    and w: "waypoint_assessments out = was"
    by (auto simp: handleAssessMarineTrip_def Let_def split: sum.splits prod.splits)
  show ?thesis
    using assessWaypoints_waypoints[OF loop] w by simp
qed

text \<open>
  Claim C8. For every route of at least two waypoints, \<open>sampleWaypoints\<close> with the
  handler's bound of 5 returns at most (indeed exactly) \<open>min 5 (length route)\<close>
  waypoints, the first of them the route's first and the last of them the route's last.
  A route of at most five waypoints is returned whole. A longer route of \<open>n\<close> waypoints
  is sampled at the indices \<open>round (i * (n - 1) / 4)\<close> for \<open>i = 0, ..., 4\<close>, that is at
  \<open>(i * (n - 1) + 2) div 4\<close>: a function of \<open>i\<close> and \<open>n\<close> alone, strictly increasing in
  \<open>i\<close> and within the route. A successful trip assessment has one assessment per sampled
  waypoint, in order, hence at most \<open>min 5 (length route)\<close> of them.
\<close>

theorem sampleWaypoints_bounds:
  assumes "2 \<le> length rt"
  shows "length (sampleWaypoints rt 5) \<le> min 5 (length rt)
       \<and> length (sampleWaypoints rt 5) = min 5 (length rt)
       \<and> hd (sampleWaypoints rt 5) = hd rt
       \<and> last (sampleWaypoints rt 5) = last rt
       \<and> (length rt \<le> 5 \<longrightarrow> sampleWaypoints rt 5 = rt)
       \<and> (5 < length rt \<longrightarrow>
            sampleWaypoints rt 5 = map (\<lambda>i. rt ! ((i * (length rt - 1) + 2) div 4)) [0..<5]
          \<and> sorted_wrt (<) (map (\<lambda>i. (i * (length rt - 1) + 2) div 4) [0..<5])
          \<and> (\<forall>i \<in> set [0..<5]. (i * (length rt - 1) + 2) div 4 < length rt))
       \<and> (route input = rt \<and> handleAssessMarineTrip input env = Inr out \<longrightarrow>
            map waypoint (waypoint_assessments out) = sampleWaypoints rt 5
          \<and> length (waypoint_assessments out) \<le> min 5 (length rt))"
proof (cases "length rt \<le> 5")
  case True
  then have s: "sampleWaypoints rt 5 = rt" by (rule sample_short)
  have h: "map waypoint (waypoint_assessments out) = rt"
    if "route input = rt" "handleAssessMarineTrip input env = Inr out"
    using trip_assesses_sample[OF that(2)] that(1) s by simp
  have "length (waypoint_assessments out) = length rt"
    if "route input = rt" "handleAssessMarineTrip input env = Inr out"
    using h[OF that] by (metis length_map)
  then show ?thesis
    using True s h by auto
next
  case False
  then have long: "5 < length rt" by simp
  have u5: "[0..<5] = [0, 1, 2, 3, 4::nat]" by (simp add: upt_rec)
  have s: "sampleWaypoints rt 5 = map (\<lambda>i. rt ! ((i * (length rt - 1) + 2) div 4)) [0..<5]"
    using long by (rule sample_long)
  have len: "length (sampleWaypoints rt 5) = 5"
    unfolding s by simp
  have ne: "rt \<noteq> []" using long by auto
  have first: "hd (sampleWaypoints rt 5) = hd rt"
    unfolding s u5 using ne by (simp add: hd_conv_nth)
  have "(4 * (length rt - 1) + 2) div 4 = length rt - 1" by arith
  then have "last (sampleWaypoints rt 5) = rt ! (length rt - 1)"
    unfolding s u5 by (simp only: list.map last.simps list.distinct simp_thms if_False if_True)
  then have lst: "last (sampleWaypoints rt 5) = last rt"
    using last_conv_nth[OF ne] by simp
  have rng: "\<forall>i \<in> set [0..<5]. (i * (length rt - 1) + 2) div 4 < length rt"
    using sample_index_in_range[of "length rt"] long by simp
  have h: "map waypoint (waypoint_assessments out) = sampleWaypoints rt 5"
    if "route input = rt" "handleAssessMarineTrip input env = Inr out"
    using trip_assesses_sample[OF that(2)] that(1) by simp
  have hl: "length (waypoint_assessments out) = 5"
    if "route input = rt" "handleAssessMarineTrip input env = Inr out"
    using h[OF that] len by (metis length_map)
  show ?thesis
    using long len first lst rng s stride_increasing[OF long] h hl by auto
qed


lemma ex_long_sample:
  "sampleWaypoints ex_long_route 5
     = [ex_wp 59, ex_wp (592/10), ex_wp (594/10), ex_wp (596/10), ex_wp (598/10)]"
proof -
  have l9: "length ex_long_route = 9"
    by (simp add: ex_long_route_def)
  have u5: "[0..<5] = [0, 1, 2, 3, 4::nat]"
    by (simp add: upt_rec)
  have "5 < length ex_long_route"
    by (simp add: l9)
  then have "sampleWaypoints ex_long_route 5
      = map (\<lambda>i. ex_long_route ! ((i * (length ex_long_route - 1) + 2) div 4)) [0..<5]"
    by (rule sample_long)
  then show ?thesis
    unfolding l9 u5 by (simp add: ex_long_route_def)
qed

lemma ex_wp_run:
  "handleMarineConditions
     \<lparr>mi_location = \<lparr>lat = wp_lat (ex_wp la), lon = wp_lon (ex_wp la), altitude = None\<rparr>,
      mi_timeWindow = None, mi_vesselType = kayak, mi_language = ''en''\<rparr> ex_marine_env
   = (if isCoastalNorway la (105/10)
      then Inr \<lparr>mo_source = buildSourceMetadata ''Oceanforecast 2.0''
                        \<lparr>cached = False, ageSeconds = None, status = Some MISS\<rparr>,
          mo_location = (la, 105/10),
          mo_timeWindow = \<lparr>rw_from = 1748775600000, rw_to = 1748948400000\<rparr>,
          mo_vesselType = kayak,
          mo_hours = [\<lparr>p_time = ''2025-06-01T12:00:00Z'', wave_height = 1/10,
                       wave_direction = 0, water_temperature = 0, water_speed = 0,
                       water_direction = 0, risk_level = low, risk_notes = [Calm]\<rparr>]\<rparr>
      else Inl (buildErrorResponse
                 (createOutOfCoverageError
                    (''Marine conditions are only available for coastal Norway (Oslo Fjord 59-60.5''
                       @ degree @ ''N, 10-11.5'' @ degree @ ''E and Western Coast 58-63''
                       @ degree @ ''N, 4.5-8'' @ degree @ ''E).'')
                    (la, 105/10))))"
  by (simp add: handleMarineConditions_def ex_wp_def ex_marine_env_def
      resolveTimeWindow_marine_def transformMetResponse_marine_def
      outsideWindow_def ex_entry_def marinePoint_def orElse_def assessRiskLevel_def)

lemma ex_long_run:
  "\<not> isl (handleAssessMarineTrip ex_long_input ex_trip_env)"
  by (simp add: handleAssessMarineTrip_def Let_def ex_long_input_def ex_long_sample
      ex_trip_env_def ex_wp_run isCoastalNorway_def)

theorem sampleWaypoints_bounds_witness:
  "2 \<le> length ex_long_route
   \<and> 5 < length ex_long_route
   \<and> length (sampleWaypoints ex_long_route 5) = 5
   \<and> sampleWaypoints ex_long_route 5
       = [ex_wp 59, ex_wp (592/10), ex_wp (594/10), ex_wp (596/10), ex_wp (598/10)]
   \<and> \<not> isl (handleAssessMarineTrip ex_long_input ex_trip_env)
   \<and> map waypoint
        (waypoint_assessments (projr (handleAssessMarineTrip ex_long_input ex_trip_env)))
       = [ex_wp 59, ex_wp (592/10), ex_wp (594/10), ex_wp (596/10), ex_wp (598/10)]
   \<and> 2 \<le> length ex_route
   \<and> length ex_route \<le> 5
   \<and> sampleWaypoints ex_route 5 = ex_route"
proof -
  have l9: "length ex_long_route = 9"
    by (simp add: ex_long_route_def)
  have l2: "length ex_route = 2"
    by (simp add: ex_route_def)
  have u5: "[0..<5] = [0, 1, 2, 3, 4::nat]"
    by (simp add: upt_rec)
  have r: "route ex_long_input = ex_long_route"
    by (simp add: ex_long_input_def)
  have t: "handleAssessMarineTrip ex_long_input ex_trip_env
         = Inr (projr (handleAssessMarineTrip ex_long_input ex_trip_env))"
    using ex_long_run by (cases "handleAssessMarineTrip ex_long_input ex_trip_env") auto
  have long: "2 \<le> length ex_long_route" and short: "2 \<le> length ex_route"
    by (simp_all add: l9 l2)
  show ?thesis
    using sampleWaypoints_bounds[OF long, of ex_long_input ex_trip_env
        "projr (handleAssessMarineTrip ex_long_input ex_trip_env)"]
      sampleWaypoints_bounds[OF short, of ex_trip_input ex_trip_env
        "projr (handleAssessMarineTrip ex_trip_input ex_trip_env)"]
      r t ex_long_run
    by (simp add: l9 l2 u5 ex_long_route_def)
qed

subsection \<open>Activity scorer\<close>

lemma ex_activity_run:
  "\<not> isl (handleAssessOutdoorActivity ex_activity_input ex_forecast_env)
   \<and> map (\<lambda>s. (score (s_comfort s), temperature_ok (s_comfort s), wind_ok (s_comfort s),
                 precipitation_ok (s_comfort s), reason (s_comfort s)))
        (slots (projr (handleAssessOutdoorActivity ex_activity_input ex_forecast_env)))
       = [(good, True, True, True, []),
          (poor, False, True, False, [TooHot, HeavyRain]),
          (ok, True, False, True, [Windy])]"
  by (simp add: handleAssessOutdoorActivity_def handleLocationForecast_def Let_def
      ex_activity_input_def ex_forecast_env_def ex_hour_def resolveTimeWindow_def
      transformMetResponse_def outsideWindow_def weatherPoint_def orElse_def orString_def
      getThresholds_def comfortSlot_def assessComfort_def)

text \<open>
  Claim C7. For every slot that the activity scorer assesses, \<open>temperature_ok\<close>,
  \<open>wind_ok\<close> and \<open>precipitation_ok\<close> are the specification's three conditions on the
  slot's own measurements, under the thresholds and the \<open>avoidRain\<close> preference of the
  request, and the score is good, ok or poor as the number of violated conditions is
  0, 1, or at least 2. A wind equal to \<open>maxWind\<close> is \<open>wind_ok\<close>.
\<close>

theorem assessComfort_rules:
  "temperature_ok (assessComfort t w p th a) = spec_temperature_ok (minTemp th) (maxTemp th) t
   \<and> wind_ok (assessComfort t w p th a) = spec_wind_ok (maxWind th) w
   \<and> precipitation_ok (assessComfort t w p th a)
       = spec_precipitation_ok a (avoidHeavyRain th) p
   \<and> score (assessComfort t w p th a)
       = spec_score (spec_violations (temperature_ok (assessComfort t w p th a))
                       (wind_ok (assessComfort t w p th a))
                       (precipitation_ok (assessComfort t w p th a)))
   \<and> wind_ok (assessComfort t (maxWind th) p th a)
   \<and> (handleAssessOutdoorActivity input env = Inr out \<longrightarrow>
        (\<forall>s \<in> set (slots out).
           s_comfort s =
             assessComfort (s_temperature s) (s_wind_speed s) (s_precipitation_rate s)
               (getThresholds (ai_activity input) (ai_preferences input))
               (orElse (Option.bind (ai_preferences input) p_avoidRain) False)))"
proof -
  have a: "temperature_ok (assessComfort t w p th a)
         = spec_temperature_ok (minTemp th) (maxTemp th) t"
    by (simp add: assessComfort_def spec_temperature_ok_def Let_def)
  have b: "wind_ok (assessComfort t w p th a) = spec_wind_ok (maxWind th) w" for w
    by (simp add: assessComfort_def spec_wind_ok_def Let_def)
  have c: "precipitation_ok (assessComfort t w p th a)
         = spec_precipitation_ok a (avoidHeavyRain th) p"
    by (auto simp: assessComfort_def spec_precipitation_ok_def Let_def)
  have d: "score (assessComfort t w p th a)
       = spec_score (spec_violations (temperature_ok (assessComfort t w p th a))
                       (wind_ok (assessComfort t w p th a))
                       (precipitation_ok (assessComfort t w p th a)))"
    by (simp add: assessComfort_def spec_score_def spec_violations_def Let_def)
  have e: "wind_ok (assessComfort t (maxWind th) p th a)"
    by (simp add: b spec_wind_ok_def)
  have f: "\<forall>s \<in> set (slots out).
           s_comfort s =
             assessComfort (s_temperature s) (s_wind_speed s) (s_precipitation_rate s)
               (getThresholds (ai_activity input) (ai_preferences input))
               (orElse (Option.bind (ai_preferences input) p_avoidRain) False)"
    if h: "handleAssessOutdoorActivity input env = Inr out"
  proof -
    from h obtain hours where
      "slots out = map (comfortSlot (getThresholds (ai_activity input) (ai_preferences input))
                     (orElse (Option.bind (ai_preferences input) p_avoidRain) False)) hours"
      by (auto simp: handleAssessOutdoorActivity_def Let_def split: sum.splits)
    then show ?thesis
      by (auto simp: comfortSlot_def)
  qed
  show ?thesis
    using a b c d e f by blast
qed

theorem assessComfort_rules_witness:
  "\<not> isl (handleAssessOutdoorActivity ex_activity_input ex_forecast_env)
   \<and> map (\<lambda>s. score (s_comfort s))
        (slots (projr (handleAssessOutdoorActivity ex_activity_input ex_forecast_env)))
       = [good, poor, ok]
   \<and> map (\<lambda>s. wind_ok (s_comfort s))
        (slots (projr (handleAssessOutdoorActivity ex_activity_input ex_forecast_env)))
       = [True, True, False]
   \<and> precipitation_ok (assessComfort 8 5 0 (getThresholds running None) True)
   \<and> spec_precipitation_ok True True 0
   \<and> score (assessComfort 8 5 0 (getThresholds running None) True) = good
   \<and> \<not> precipitation_ok (assessComfort 8 5 (1/10) (getThresholds running None) True)
   \<and> score (assessComfort 8 5 (1/10) (getThresholds running None) True) = ok"
proof -
  have t: "handleAssessOutdoorActivity ex_activity_input ex_forecast_env
         = Inr (projr (handleAssessOutdoorActivity ex_activity_input ex_forecast_env))"
    using ex_activity_run
    by (cases "handleAssessOutdoorActivity ex_activity_input ex_forecast_env") auto
  have s: "map (\<lambda>s. score (s_comfort s))
        (slots (projr (handleAssessOutdoorActivity ex_activity_input ex_forecast_env)))
       = map fst (map (\<lambda>s. (score (s_comfort s), temperature_ok (s_comfort s),
                  wind_ok (s_comfort s), precipitation_ok (s_comfort s), reason (s_comfort s)))
        (slots (projr (handleAssessOutdoorActivity ex_activity_input ex_forecast_env))))"
    by (simp add: comp_def)
  have w: "map (\<lambda>s. wind_ok (s_comfort s))
        (slots (projr (handleAssessOutdoorActivity ex_activity_input ex_forecast_env)))
       = map (\<lambda>x. fst (snd (snd x))) (map (\<lambda>s. (score (s_comfort s), temperature_ok (s_comfort s),
                  wind_ok (s_comfort s), precipitation_ok (s_comfort s), reason (s_comfort s)))
        (slots (projr (handleAssessOutdoorActivity ex_activity_input ex_forecast_env))))"
    by (simp add: comp_def)
  have g: "getThresholds running None
         = \<lparr>minTemp = 5, maxTemp = 20, maxWind = 10, avoidHeavyRain = True\<rparr>"
    by (simp add: getThresholds_def)
  show ?thesis
    using assessComfort_rules[of 8 5 0 "getThresholds running None" True
        ex_activity_input ex_forecast_env
        "projr (handleAssessOutdoorActivity ex_activity_input ex_forecast_env)"]
      assessComfort_rules[of 8 5 "1/10" "getThresholds running None" True
        ex_activity_input ex_forecast_env
        "projr (handleAssessOutdoorActivity ex_activity_input ex_forecast_env)"]
      t ex_activity_run
    unfolding s w
    by (simp add: g spec_temperature_ok_def spec_wind_ok_def spec_precipitation_ok_def
        spec_score_def spec_violations_def)
qed

subsection \<open>Error envelopes\<close>

lemma ex_rate_limited_30:
  "ex_rate_limited ''30'' =
     \<lparr>code = RATE_LIMITED, message = ''Rate limit exceeded. Please try again later.'',
      retryable = True,
      details = Some (noDetails\<lparr>upstreamStatus := Some 429, retryAfterSeconds := Some 30\<rparr>)\<rparr>"
  by (simp add: ex_rate_limited_def handleHttpError_def mapHttpStatusToErrorCode_def
      ex_retry_headers_def truthy_def createWeatherError_def noDetails_def
      parseInt_def isWhiteSpace_def isDigit_def digitValue_def digitsValue_def)

lemma ex_rate_limited_0:
  "ex_rate_limited ''0'' =
     \<lparr>code = RATE_LIMITED, message = ''Rate limit exceeded. Please try again later.'',
      retryable = True,
      details = Some (noDetails\<lparr>upstreamStatus := Some 429, retryAfterSeconds := Some 0\<rparr>)\<rparr>"
  by (simp add: ex_rate_limited_def handleHttpError_def mapHttpStatusToErrorCode_def
      ex_retry_headers_def truthy_def createWeatherError_def noDetails_def
      parseInt_def isWhiteSpace_def isDigit_def digitValue_def digitsValue_def)

text \<open>
  Claim C10. For every error record, the summary of \<open>buildErrorResponse\<close> is the message
  followed by \<open>" Retry after N seconds."\<close> when \<open>details.retryAfterSeconds\<close> is present
  with a value \<open>N\<close> other than 0, and the bare message when the field is 0 or absent; so
  the summary differs from the bare message only when the field is present and not 0.
  The structured content is the error record itself, and \<open>isError\<close> is set.
\<close>

theorem buildErrorResponse_summary:
  "(retryAfterOf err = Some n \<and> n \<noteq> 0 \<longrightarrow>
      content_text (buildErrorResponse err :: 'o CallToolResult)
        = message err @ spec_retry_suffix n)
   \<and> (retryAfterOf err = Some 0 \<longrightarrow>
        content_text (buildErrorResponse err :: 'o CallToolResult) = message err)
   \<and> (retryAfterOf err = None \<longrightarrow>
        content_text (buildErrorResponse err :: 'o CallToolResult) = message err)
   \<and> (content_text (buildErrorResponse err :: 'o CallToolResult) \<noteq> message err
        \<longleftrightarrow> (\<exists>k. retryAfterOf err = Some k \<and> k \<noteq> 0))
   \<and> structuredContent (buildErrorResponse err :: 'o CallToolResult) = ErrorContent err
   \<and> isError (buildErrorResponse err :: 'o CallToolResult) = Some True"
  by (cases "details err"; cases "retryAfterOf err")
     (auto simp: buildErrorResponse_def retryAfterOf_def spec_retry_suffix_def Let_def
        split: option.splits)

theorem buildErrorResponse_summary_witness:
  "retryAfterOf (ex_rate_limited ''30'') = Some 30
   \<and> content_text (buildErrorResponse (ex_rate_limited ''30'') :: unit CallToolResult)
       = ''Rate limit exceeded. Please try again later. Retry after 30 seconds.''
   \<and> retryAfterOf (ex_rate_limited ''0'') = Some 0
   \<and> content_text (buildErrorResponse (ex_rate_limited ''0'') :: unit CallToolResult)
       = ''Rate limit exceeded. Please try again later.''
   \<and> retryAfterOf (createWeatherError INVALID_INPUT ''Invalid coordinates provided'' None) = None
   \<and> content_text (buildErrorResponse
         (createWeatherError INVALID_INPUT ''Invalid coordinates provided'' None)
           :: unit CallToolResult)
       = ''Invalid coordinates provided''
   \<and> isError (buildErrorResponse (ex_rate_limited ''30'') :: unit CallToolResult) = Some True"
proof -
  have a: "retryAfterOf (ex_rate_limited ''30'') = Some 30"
    by (simp add: ex_rate_limited_30 retryAfterOf_def noDetails_def)
  have b: "retryAfterOf (ex_rate_limited ''0'') = Some 0"
    by (simp add: ex_rate_limited_0 retryAfterOf_def noDetails_def)
  have c: "retryAfterOf (createWeatherError INVALID_INPUT ''Invalid coordinates provided'' None)
         = None"
    by (simp add: retryAfterOf_def createWeatherError_def)
  have n: "numberToString 30 = ''30''"
    by (simp add: numberToString_def digits.simps)
  show ?thesis
    using buildErrorResponse_summary[of "ex_rate_limited ''30''" 30, where 'o = unit]
      buildErrorResponse_summary[of "ex_rate_limited ''0''" 0, where 'o = unit]
      buildErrorResponse_summary
        [of "createWeatherError INVALID_INPUT ''Invalid coordinates provided'' None" 0,
         where 'o = unit]
      a b c
    by (simp add: n spec_retry_suffix_def ex_rate_limited_30 ex_rate_limited_0
        createWeatherError_def)
qed

subsection \<open>Cache headers\<close>



























subsection \<open>Time-window resolution\<close>





end
